(* ===== verification/Prelude.thy ===== *)
theory Prelude
  imports Main "HOL-Library.AList"
begin

text \<open>
  Shared vocabulary of the build-rule development.
  \<^item> \<open>py_error\<close>: the Python exceptions the modelled code can raise; a raising
    computation is a value \<open>Inl e\<close> of \<open>py_error + 'a\<close>, a returning one is \<open>Inr x\<close>.
  \<^item> \<open>sbind\<close>: sequencing of raising computations (an exception skips the rest).
  \<^item> \<open>traverse\<close>: the reference semantics of a loop that applies a raising function to
    every element of a list; \<open>append_loop\<close> is the loop as the code writes it
    (\<^verbatim>\<open>for x in xs: y = f(x); acc.append(y)\<close>), and \<open>append_loop_traverse\<close>
    shows the two agree.
  The named collection \<open>model_defs\<close> holds the definitions that are unfolded when a
  concrete input is evaluated by \<open>simp\<close>.
\<close>

named_theorems model_defs "definitions unfolded to evaluate the model on concrete inputs"

datatype py_error =
    KeyError string
  | IndexError
  | AttributeError
  | ValueError
  | TypeError
  | AssertionError
  | OSError
  | XMLSyntaxError

type_synonym 'a py_result = "py_error + 'a"

definition sbind :: "'e + 'a \<Rightarrow> ('a \<Rightarrow> 'e + 'b) \<Rightarrow> 'e + 'b" where
  "sbind m f = (case m of Inl e \<Rightarrow> Inl e | Inr a \<Rightarrow> f a)"

fun traverse :: "('a \<Rightarrow> 'e + 'b) \<Rightarrow> 'a list \<Rightarrow> 'e + 'b list" where
  "traverse f [] = Inr []"
| "traverse f (x # xs) = sbind (f x) (\<lambda>y. sbind (traverse f xs) (\<lambda>ys. Inr (y # ys)))"

fun append_loop :: "('a \<Rightarrow> 'e + 'b) \<Rightarrow> 'b list \<Rightarrow> 'a list \<Rightarrow> 'e + 'b list" where
  "append_loop f acc [] = Inr acc"
| "append_loop f acc (x # xs) = sbind (f x) (\<lambda>y. append_loop f (acc @ [y]) xs)"

subsection \<open>Sequencing\<close>

lemma sbind_Inl [simp]: "sbind (Inl e) f = Inl e"
  by (simp add: sbind_def)

lemma sbind_Inr [simp]: "sbind (Inr a) f = f a"
  by (simp add: sbind_def)

lemma sbind_eq_Inr_iff: "sbind m f = Inr b \<longleftrightarrow> (\<exists>a. m = Inr a \<and> f a = Inr b)"
  by (cases m) auto

lemma sbind_eq_Inl_iff:
  "sbind m f = Inl e \<longleftrightarrow> m = Inl e \<or> (\<exists>a. m = Inr a \<and> f a = Inl e)"
  by (cases m) auto

lemma sbind_Inr_right [simp]: "sbind m Inr = m"
  by (cases m) auto

lemma sbind_assoc: "sbind (sbind m f) g = sbind m (\<lambda>a. sbind (f a) g)"
  by (cases m) auto

lemma sbind_cong [fundef_cong]:
  "m = m' \<Longrightarrow> (\<And>a. m' = Inr a \<Longrightarrow> f a = g a) \<Longrightarrow> sbind m f = sbind m' g"
  by (cases m) auto

subsection \<open>Association lists\<close>

text \<open>\<open>AList.update\<close> is assignment into a Python dict that keeps insertion order.\<close>

lemma set_update_subset: "set (AList.update k v al) \<subseteq> insert (k, v) (set al)"
  by (induction al) auto

subsection \<open>Loops over lists\<close>

lemma traverse_append:
  "traverse f (xs @ ys) = sbind (traverse f xs) (\<lambda>as. sbind (traverse f ys) (\<lambda>bs. Inr (as @ bs)))"
  by (induction xs) (simp_all add: sbind_assoc)

lemma append_loop_traverse:
  "append_loop f acc xs = sbind (traverse f xs) (\<lambda>ys. Inr (acc @ ys))"
  by (induction xs arbitrary: acc) (simp_all add: sbind_assoc)

lemma traverse_eq_Inr_iff:
  "traverse f xs = Inr ys \<longleftrightarrow> list_all2 (\<lambda>x y. f x = Inr y) xs ys"
proof (induction xs arbitrary: ys)
  case Nil
  then show ?case by auto
next
  case (Cons x xs)
  then show ?case
    by (cases ys) (auto simp: sbind_eq_Inr_iff)
qed

lemma traverse_map:
  "(\<And>x. x \<in> set xs \<Longrightarrow> f x = Inr (g x)) \<Longrightarrow> traverse f xs = Inr (map g xs)"
  by (induction xs) auto

lemma traverse_map_inverse:
  "(\<And>x. x \<in> set xs \<Longrightarrow> f (h x) = Inr x) \<Longrightarrow> traverse f (map h xs) = Inr xs"
  by (induction xs) auto

lemma traverse_length: "traverse f xs = Inr ys \<Longrightarrow> length ys = length xs"
  by (simp add: traverse_eq_Inr_iff list_all2_lengthD)

text \<open>
  The error of a failing loop is the error of the first element that fails: every
  element before it returns.
\<close>

lemma traverse_eq_Inl_iff:
  "traverse f xs = Inl e \<longleftrightarrow>
     (\<exists>as x bs. xs = as @ x # bs \<and> list_all (\<lambda>a. \<exists>y. f a = Inr y) as \<and> f x = Inl e)"
  (is "_ \<longleftrightarrow> ?first xs")
proof (induction xs)
  case Nil
  then show ?case by simp
next
  case (Cons x xs)
  show ?case
  proof (cases "f x")
    case (Inl e')
    have "?first (x # xs) \<longleftrightarrow> f x = Inl e"
    proof
      assume "?first (x # xs)"
      then obtain as z bs where split: "x # xs = as @ z # bs"
        and pre: "list_all (\<lambda>a. \<exists>y. f a = Inr y) as" and fz: "f z = Inl e"
        by blast
      from split pre Inl have "as = []" by (cases as) auto
      with split fz show "f x = Inl e" by simp
    next
      assume "f x = Inl e"
      then have "x # xs = [] @ x # xs \<and> list_all (\<lambda>a. \<exists>y. f a = Inr y) [] \<and> f x = Inl e"
        by simp
      then show "?first (x # xs)" by blast
    qed
    with Inl show ?thesis by auto
  next
    case (Inr y)
    have "traverse f (x # xs) = Inl e \<longleftrightarrow> traverse f xs = Inl e"
      using Inr by (cases "traverse f xs") auto
    moreover have "?first (x # xs) \<longleftrightarrow> ?first xs"
    proof
      assume "?first (x # xs)"
      then obtain as z bs where split: "x # xs = as @ z # bs"
        and pre: "list_all (\<lambda>a. \<exists>y. f a = Inr y) as" and fz: "f z = Inl e"
        by blast
      from split fz Inr obtain as' where "as = x # as'"
        by (cases as) auto
      with split pre fz show "?first xs" by auto
    next
      assume "?first xs"
      then obtain as z bs where "xs = as @ z # bs"
        and "list_all (\<lambda>a. \<exists>y. f a = Inr y) as" and "f z = Inl e"
        by blast
      with Inr have "x # xs = (x # as) @ z # bs \<and> list_all (\<lambda>a. \<exists>y. f a = Inr y) (x # as)
                     \<and> f z = Inl e"
        by simp
      then show "?first (x # xs)" by blast
    qed
    ultimately show ?thesis using Cons.IH by simp
  qed
qed

end
