(* ===== verification/Py_Str.thy ===== *)
theory Py_Str
  imports Prelude
begin

text \<open>
  Python's \<^verbatim>\<open>str.lower()\<close> and \<^verbatim>\<open>str.upper()\<close>, which
  \<^verbatim>\<open>BuildRuleFile.parse\<close> and \<^verbatim>\<open>BuildRuleFile.to_element\<close> apply to the
  version tag. A character is modelled by its code point (\<open>ord\<close>, below 256: Latin-1), and
  the case mappings are Python's (Unicode's) on Latin-1:
  \<^item> \<open>lower_char\<close>: \<open>A\<close>--\<open>Z\<close> and \<open>0xC0\<close>--\<open>0xDE\<close> except the sign
    \<open>0xD7\<close> move up by 32; every other character is itself. The lower case of a Latin-1
    character is Latin-1, so \<open>str_lower\<close> is \<^verbatim>\<open>str.lower\<close> exactly.
  \<^item> \<open>upper_char\<close>: \<open>a\<close>--\<open>z\<close> and \<open>0xE0\<close>--\<open>0xFE\<close> except the sign
    \<open>0xF7\<close> move down by 32, the sharp s \<open>0xDF\<close> becomes the two characters
    \<^verbatim>\<open>SS\<close>, every other character is itself. \<open>str_upper\<close> concatenates, so it
    can lengthen a string. Two characters have an upper case outside Latin-1, which the
    model cannot hold: the micro sign \<open>0xB5\<close> (Python gives U+039C) and \<open>0xFF\<close>
    (Python gives U+0178). The model leaves them as they are. For \<open>0xFF\<close> this changes
    only the spelling of a written tag (both are name characters and both lower to
    \<open>0xFF\<close>); the micro sign is no name character while U+039C is, so a version holding
    it makes the model's \<^verbatim>\<open>to_element\<close> raise where Python writes the tag.
  Consequences the other theories use: \<open>str_upper (str_lower s) = str_upper s\<close>, while
  \<open>str_lower (str_upper s) = str_lower s\<close> holds exactly when \<open>s\<close> has no sharp s
  (\<open>'\<ss>'.upper().lower()\<close> is \<open>'ss'\<close>).
\<close>

abbreviation ord :: "char \<Rightarrow> nat" where
  "ord c \<equiv> of_char c"

abbreviation sharp_s :: char where
  "sharp_s \<equiv> CHR 0xDF"

abbreviation micro_sign :: char where
  "micro_sign \<equiv> CHR 0xB5"

definition is_ascii :: "char \<Rightarrow> bool" where
  "is_ascii c \<longleftrightarrow> ord c < 128"

definition is_upper_ascii :: "char \<Rightarrow> bool" where
  "is_upper_ascii c \<longleftrightarrow> 65 \<le> ord c \<and> ord c \<le> 90"

definition is_lower_ascii :: "char \<Rightarrow> bool" where
  "is_lower_ascii c \<longleftrightarrow> 97 \<le> ord c \<and> ord c \<le> 122"

definition is_digit_ascii :: "char \<Rightarrow> bool" where
  "is_digit_ascii c \<longleftrightarrow> 48 \<le> ord c \<and> ord c \<le> 57"

definition is_upper :: "char \<Rightarrow> bool" where
  "is_upper c \<longleftrightarrow> is_upper_ascii c \<or> (192 \<le> ord c \<and> ord c \<le> 222 \<and> ord c \<noteq> 215)"

definition is_lower :: "char \<Rightarrow> bool" where
  "is_lower c \<longleftrightarrow> is_lower_ascii c \<or> (224 \<le> ord c \<and> ord c \<le> 254 \<and> ord c \<noteq> 247)"

definition lower_char :: "char \<Rightarrow> char" where
  "lower_char c = (if is_upper c then char_of (ord c + 32) else c)"

definition upper_char :: "char \<Rightarrow> string" where
  "upper_char c =
     (if is_lower c then [char_of (ord c - 32)] else if c = sharp_s then ''SS'' else [c])"

definition str_lower :: "string \<Rightarrow> string" where
  "str_lower s = map lower_char s"

definition str_upper :: "string \<Rightarrow> string" where
  "str_upper s = concat (map upper_char s)"

definition ascii_str :: "string \<Rightarrow> bool" where
  "ascii_str s \<longleftrightarrow> list_all is_ascii s"

declare is_ascii_def [model_defs] is_upper_ascii_def [model_defs]
  is_lower_ascii_def [model_defs] is_digit_ascii_def [model_defs]
  is_upper_def [model_defs] is_lower_def [model_defs]
  lower_char_def [model_defs] upper_char_def [model_defs]
  str_lower_def [model_defs] str_upper_def [model_defs] ascii_str_def [model_defs]
  char_of_def [model_defs] bit_0 [model_defs]

subsection \<open>One character\<close>

lemma char_eq_ord_iff: "c = d \<longleftrightarrow> ord c = ord d"
  by simp

lemma ord_lower_char:
  "ord (lower_char c) = (if is_upper c then ord c + 32 else ord c)"
proof -
  have "ord c < 256" by simp
  then have "is_upper c \<Longrightarrow> (ord c + 32) mod 256 = ord c + 32"
    by (auto simp: is_upper_def is_upper_ascii_def)
  then show ?thesis by (simp add: lower_char_def)
qed

lemma upper_char_lower:
  "is_lower c \<Longrightarrow> upper_char c = [char_of (ord c - 32)] \<and> ord (char_of (ord c - 32)) = ord c - 32"
proof -
  have "ord c < 256" by simp
  then have "(ord c - 32) mod 256 = ord c - 32" by (intro mod_less) arith
  then show "is_lower c \<Longrightarrow> ?thesis" by (simp add: upper_char_def)
qed

lemma upper_char_sharp_s [simp]: "upper_char sharp_s = ''SS''"
  by (simp add: upper_char_def is_lower_def is_lower_ascii_def)

lemma upper_char_other:
  "\<not> is_lower c \<Longrightarrow> c \<noteq> sharp_s \<Longrightarrow> upper_char c = [c]"
  by (simp add: upper_char_def)

lemma lower_char_fixed: "\<not> is_upper c \<Longrightarrow> lower_char c = c"
  by (simp add: lower_char_def)

lemma lower_char_idem [simp]: "lower_char (lower_char c) = lower_char c"
  unfolding char_eq_ord_iff
  by (simp del: of_char_eq_iff add: ord_lower_char is_upper_def is_upper_ascii_def)

lemma lower_char_id_iff: "lower_char c = c \<longleftrightarrow> \<not> is_upper c"
  unfolding char_eq_ord_iff
  by (simp del: of_char_eq_iff add: ord_lower_char)

lemma upper_lower_char [simp]: "upper_char (lower_char c) = upper_char c"
proof (cases "is_upper c")
  case True
  then have l: "is_lower (lower_char c)" and o: "ord (lower_char c) = ord c + 32"
    by (auto simp: ord_lower_char is_upper_def is_upper_ascii_def is_lower_def is_lower_ascii_def)
  have "\<not> is_lower c" using True by (auto simp: is_upper_def is_upper_ascii_def is_lower_def is_lower_ascii_def)
  moreover have "c \<noteq> sharp_s" using True by (auto simp: is_upper_def is_upper_ascii_def)
  ultimately show ?thesis
    using upper_char_lower [OF l] o by (simp add: upper_char_other)
qed (simp add: lower_char_fixed)

lemma lower_upper_char:
  "c \<noteq> sharp_s \<Longrightarrow> map lower_char (upper_char c) = [lower_char c]"
proof (cases "is_lower c")
  case True
  from upper_char_lower [OF True] obtain u where
    u: "upper_char c = [u]" and ou: "ord u = ord c - 32" by blast
  from True ou have "is_upper u"
    by (auto simp: is_upper_def is_upper_ascii_def is_lower_def is_lower_ascii_def)
  with True ou have "lower_char u = c"
    unfolding char_eq_ord_iff
    by (auto simp del: of_char_eq_iff simp: ord_lower_char is_lower_def is_lower_ascii_def)
  moreover from True have "\<not> is_upper c"
    by (auto simp: is_upper_def is_upper_ascii_def is_lower_def is_lower_ascii_def)
  ultimately show ?thesis by (simp add: u lower_char_fixed)
qed (simp add: upper_char_other)

lemma upper_char_nonempty [simp]: "upper_char c \<noteq> []"
  by (simp add: upper_char_def)

lemma is_ascii_lower_char [simp]: "is_ascii (lower_char c) = is_ascii c"
  by (simp add: is_ascii_def ord_lower_char is_upper_def is_upper_ascii_def)

subsection \<open>Strings\<close>

lemma str_upper_Nil [simp]: "str_upper [] = []"
  by (simp add: str_upper_def)

lemma str_upper_Cons [simp]: "str_upper (c # s) = upper_char c @ str_upper s"
  by (simp add: str_upper_def)

lemma str_upper_append [simp]: "str_upper (s @ t) = str_upper s @ str_upper t"
  by (simp add: str_upper_def)

lemma length_str_lower [simp]: "length (str_lower s) = length s"
  by (simp add: str_lower_def)

lemma str_upper_str_lower [simp]: "str_upper (str_lower s) = str_upper s"
  by (induction s) (simp_all add: str_lower_def)

lemma str_lower_idem [simp]: "str_lower (str_lower s) = str_lower s"
  by (simp add: str_lower_def)

lemma str_lower_str_upper: "sharp_s \<notin> set s \<Longrightarrow> str_lower (str_upper s) = str_lower s"
  by (induction s) (auto simp: str_lower_def lower_upper_char)

lemma upper_char_S [simp]: "upper_char (CHR ''S'') = ''S''"
  by (simp add: upper_char_def is_lower_def is_lower_ascii_def)

lemma lower_char_S [simp]: "lower_char (CHR ''S'') = CHR ''s''"
  unfolding char_eq_ord_iff
  by (simp del: of_char_eq_iff add: ord_lower_char is_upper_def is_upper_ascii_def)

lemma str_upper_upper_char [simp]: "str_upper (upper_char c) = upper_char c"
proof (cases "is_lower c")
  case True
  from upper_char_lower [OF True] obtain u where
    u: "upper_char c = [u]" and ou: "ord u = ord c - 32" by blast
  from True ou have "\<not> is_lower u" and "u \<noteq> sharp_s"
    by (auto simp: is_lower_def is_lower_ascii_def)
  then have "upper_char u = [u]" by (rule upper_char_other)
  with u show ?thesis by simp
next
  case False
  show ?thesis
  proof (cases "c = sharp_s")
    case True
    then show ?thesis by simp
  next
    case c: False
    from False c have "upper_char c = [c]" by (rule upper_char_other)
    then show ?thesis by simp
  qed
qed

lemma str_upper_idem [simp]: "str_upper (str_upper s) = str_upper s"
  by (induction s) simp_all

lemma str_lower_str_upper_idem [simp]:
  "str_lower (str_upper (str_lower (str_upper s))) = str_lower (str_upper s)"
  by simp

lemma str_lower_id_iff: "str_lower s = s \<longleftrightarrow> list_all (\<lambda>c. \<not> is_upper c) s"
  by (induction s) (simp_all add: str_lower_def lower_char_id_iff)

lemma set_upper_char_str_upper: "c \<in> set s \<Longrightarrow> set (upper_char c) \<subseteq> set (str_upper s)"
  by (induction s) auto

text \<open>
  Upper-casing then lower-casing gives back exactly the strings that are already lower case
  and hold no sharp s (which comes back as \<open>ss\<close>).
\<close>

lemma str_lower_str_upper_id_iff:
  "str_lower (str_upper s) = s \<longleftrightarrow> list_all (\<lambda>c. \<not> is_upper c \<and> c \<noteq> sharp_s) s"
proof (induction s)
  case (Cons c s)
  show ?case
  proof (cases "c = sharp_s")
    case True
    have "str_lower (str_upper (c # s)) = CHR ''s'' # CHR ''s'' # str_lower (str_upper s)"
      using True by (simp add: str_lower_def)
    with True show ?thesis by simp
  next
    case False
    then have "str_lower (str_upper (c # s)) = lower_char c # str_lower (str_upper s)"
      by (simp add: str_lower_def lower_upper_char)
    with False Cons.IH show ?thesis by (simp add: lower_char_id_iff)
  qed
qed (simp add: str_lower_def)

lemma ascii_str_lower [simp]: "ascii_str (str_lower s) = ascii_str s"
  by (simp add: ascii_str_def str_lower_def list_all_iff)

lemma is_upper_lower_char [simp]: "\<not> is_upper (lower_char c)"
proof (cases "is_upper c")
  case True
  then have "ord (lower_char c) = ord c + 32" by (simp add: ord_lower_char)
  with True show ?thesis by (auto simp: is_upper_def is_upper_ascii_def)
qed (simp add: lower_char_fixed)

lemma ascii_str_str_upper: "ascii_str s \<Longrightarrow> ascii_str (str_upper s)"
proof (induction s)
  case (Cons c s)
  then have a: "is_ascii c" by (simp add: ascii_str_def)
  show ?case
  proof (cases "is_lower c")
    case True
    from upper_char_lower [OF True] obtain u where
      u: "upper_char c = [u]" and ou: "ord u = ord c - 32" by blast
    from a ou have "is_ascii u" by (simp add: is_ascii_def)
    with u Cons show ?thesis by (simp add: ascii_str_def)
  next
    case False
    from a have "c \<noteq> sharp_s" by (auto simp: is_ascii_def)
    with False have "upper_char c = [c]" by (rule upper_char_other)
    with a Cons show ?thesis by (simp add: ascii_str_def)
  qed
qed (simp add: ascii_str_def)

lemma ascii_no_sharp_s: "ascii_str s \<Longrightarrow> sharp_s \<notin> set s"
  by (auto simp: ascii_str_def list_all_iff is_ascii_def)

end
