(* ===== verification/Etree.thy ===== *)
theory Etree
  imports Py_Str
begin

text \<open>
  The part of \<^verbatim>\<open>lxml.etree\<close> that \<^verbatim>\<open>src/build_rule.py\<close> uses. lxml is a library
  the sources only call, so these definitions follow its documented behaviour rather
  than code under \<^verbatim>\<open>src/\<close>:
  \<^item> a parsed or built tree is a \<open>node\<close>: an element with a tag, its attributes in
    document order (an association list, as lxml's \<^verbatim>\<open>attrib\<close> keeps insertion
    order) and its child nodes; or a comment, which lxml's parser keeps as a child.
    Text and tails are not children (iteration skips them) and are not modelled;
    neither are processing instructions, entities and namespaced tags;
  \<^item> \<open>attrib_getitem\<close> is \<^verbatim>\<open>ele.attrib[key]\<close> (\<open>KeyError\<close> when absent; a comment has
    no attributes); \<open>attrib_setitem\<close> is \<^verbatim>\<open>ele.attrib[key] = value\<close> (overwrite or
    append, \<open>ValueError\<close> for a value that is not XML text);
  \<^item> \<open>new_element\<close> is \<^verbatim>\<open>etree.Element(tag)\<close> (\<open>ValueError\<close> for an invalid tag
    name); \<open>append_child\<close> is \<^verbatim>\<open>ele.append(child)\<close>; \<open>child_at\<close> is
    \<^verbatim>\<open>ele[i]\<close> (\<open>IndexError\<close> out of range);
  \<^item> \<open>valid_tag\<close> is lxml's check on tag and attribute names (\<^verbatim>\<open>_tagValidOrRaise\<close>,
    \<^verbatim>\<open>_attributeValidOrRaise\<close>): libxml2's \<^verbatim>\<open>xmlValidateNameValue\<close>, an XML 1.0
    (fifth edition) name, without a colon. On Latin-1 a name starts with a letter
    (\<open>A\<close>--\<open>Z\<close>, \<open>a\<close>--\<open>z\<close>, \<open>0xC0\<close>--\<open>0xFF\<close> except the signs \<open>0xD7\<close>
    and \<open>0xF7\<close>) or \<open>_\<close>, and goes on with those, digits, \<open>-\<close>, \<open>.\<close> and the
    middle dot \<open>0xB7\<close>. \<open>valid_text\<close> is its check on attribute values: every
    character is a tab, newline, carriage return or at least a space;
  \<^item> \<open>wf_tree nm\<close> is what lxml's parser guarantees of every tree it returns, for a check
    \<open>nm\<close> on names: names that pass it, distinct attribute keys, attribute values that are
    XML text, and the same below. \<open>lxml_tree\<close> takes lxml's own name check
    (\<open>valid_tag\<close>), \<open>wf_node\<close> asks for ASCII names as well (\<open>ascii_name\<close>).
\<close>

datatype node =
    Element string "(string \<times> string) list" "node list"
  | Comment string

fun attrib :: "node \<Rightarrow> (string \<times> string) list" where
  "attrib (Element t a cs) = a"
| "attrib (Comment s) = []"

fun children :: "node \<Rightarrow> node list" where
  "children (Element t a cs) = cs"
| "children (Comment s) = []"

definition name_start_char :: "char \<Rightarrow> bool" where
  "name_start_char c \<longleftrightarrow>
     is_upper_ascii c \<or> is_lower_ascii c \<or> c = CHR ''_'' \<or>
     (192 \<le> ord c \<and> ord c \<le> 214) \<or> (216 \<le> ord c \<and> ord c \<le> 246) \<or> 248 \<le> ord c"

definition name_char :: "char \<Rightarrow> bool" where
  "name_char c \<longleftrightarrow>
     name_start_char c \<or> is_digit_ascii c \<or> c = CHR ''-'' \<or> c = CHR ''.'' \<or> ord c = 183"

fun valid_tag :: "string \<Rightarrow> bool" where
  "valid_tag [] = False"
| "valid_tag (c # cs) = (name_start_char c \<and> list_all name_char cs)"

definition ascii_name :: "string \<Rightarrow> bool" where
  "ascii_name t \<longleftrightarrow> valid_tag t \<and> ascii_str t"

definition xml_char :: "char \<Rightarrow> bool" where
  "xml_char c \<longleftrightarrow> ord c = 9 \<or> ord c = 10 \<or> ord c = 13 \<or> 32 \<le> ord c"

definition valid_text :: "string \<Rightarrow> bool" where
  "valid_text s \<longleftrightarrow> list_all xml_char s"

definition attrib_getitem :: "node \<Rightarrow> string \<Rightarrow> string py_result" where
  "attrib_getitem n k = (case map_of (attrib n) k of None \<Rightarrow> Inl (KeyError k) | Some v \<Rightarrow> Inr v)"

fun attrib_setitem :: "node \<Rightarrow> string \<Rightarrow> string \<Rightarrow> node py_result" where
  "attrib_setitem (Element t a cs) k v =
     (if valid_tag k \<and> valid_text v then Inr (Element t (AList.update k v a) cs)
      else Inl ValueError)"
| "attrib_setitem (Comment s) k v = Inl TypeError"

definition new_element :: "string \<Rightarrow> node py_result" where
  "new_element t = (if valid_tag t then Inr (Element t [] []) else Inl ValueError)"

fun append_child :: "node \<Rightarrow> node \<Rightarrow> node py_result" where
  "append_child (Element t a cs) c = Inr (Element t a (cs @ [c]))"
| "append_child (Comment s) c = Inl TypeError"

definition child_at :: "node \<Rightarrow> nat \<Rightarrow> node py_result" where
  "child_at n i = (if i < length (children n) then Inr (children n ! i) else Inl IndexError)"

fun wf_tree :: "(string \<Rightarrow> bool) \<Rightarrow> node \<Rightarrow> bool" where
  "wf_tree nm (Element t a cs) =
     (nm t \<and> distinct (map fst a) \<and> list_all (\<lambda>(k, v). nm k \<and> valid_text v) a \<and>
      list_all (wf_tree nm) cs)"
| "wf_tree nm (Comment s) = valid_text s"

abbreviation lxml_tree :: "node \<Rightarrow> bool" where
  "lxml_tree \<equiv> wf_tree valid_tag"

abbreviation wf_node :: "node \<Rightarrow> bool" where
  "wf_node \<equiv> wf_tree ascii_name"

text \<open>
  The to-element loop shared by \<^verbatim>\<open>BuildGroup.to_element\<close> and
  \<^verbatim>\<open>BuildRuleFile.to_element\<close>: convert each item, give up with
  \<^verbatim>\<open>(False, None)\<close> when a conversion reports failure, otherwise append the
  converted element to the parent. \<^verbatim>\<open>append(None)\<close> raises \<open>TypeError\<close>.
\<close>

fun to_element_loop ::
  "('a \<Rightarrow> (bool \<times> node option) py_result) \<Rightarrow> node \<Rightarrow> 'a list \<Rightarrow> (bool \<times> node option) py_result"
where
  "to_element_loop conv parent [] = Inr (True, Some parent)"
| "to_element_loop conv parent (x # xs) =
     sbind (conv x) (\<lambda>(ret, ele).
       if \<not> ret then Inr (False, None)
       else (case ele of
               None \<Rightarrow> Inl TypeError
             | Some e \<Rightarrow> sbind (append_child parent e) (\<lambda>parent'. to_element_loop conv parent' xs)))"

declare valid_tag.simps [simp del, model_defs]

declare name_start_char_def [model_defs] ascii_name_def [model_defs] name_char_def [model_defs] xml_char_def [model_defs]
  valid_text_def [model_defs] attrib_getitem_def [model_defs] new_element_def [model_defs]
  child_at_def [model_defs]

subsection \<open>Attributes\<close>

lemma attrib_getitem_Inr_iff: "attrib_getitem n k = Inr v \<longleftrightarrow> map_of (attrib n) k = Some v"
  by (simp add: attrib_getitem_def split: option.split)

lemma attrib_getitem_Inl_iff: "attrib_getitem n k = Inl e \<longleftrightarrow> map_of (attrib n) k = None \<and> e = KeyError k"
  by (auto simp add: attrib_getitem_def split: option.split)

lemma attrib_setitem_Inr_iff:
  "attrib_setitem n k v = Inr n' \<longleftrightarrow>
     (\<exists>t a cs. n = Element t a cs \<and> valid_tag k \<and> valid_text v \<and>
                n' = Element t (AList.update k v a) cs)"
  by (cases n) auto

lemma valid_text_append [simp]: "valid_text (s @ t) \<longleftrightarrow> valid_text s \<and> valid_text t"
  by (simp add: valid_text_def)

subsection \<open>The to-element loop\<close>

text \<open>
  When each conversion either returns \<open>(True, Some (g x))\<close> or raises one error
  \<open>err\<close>, depending on \<open>ok x\<close>, the loop appends the converted elements in order or
  raises \<open>err\<close>: the \<^verbatim>\<open>(False, None)\<close> branch is never taken.
\<close>

lemma to_element_loop_eq:
  assumes "\<And>x. x \<in> set xs \<Longrightarrow> conv x = (if ok x then Inr (True, Some (g x)) else Inl err)"
  shows "to_element_loop conv (Element t a cs) xs =
           (if list_all ok xs then Inr (True, Some (Element t a (cs @ map g xs))) else Inl err)"
  using assms by (induction xs arbitrary: cs) auto

subsection \<open>Well-formed trees\<close>

lemma wf_node_Element_iff:
  "wf_tree nm (Element t a cs) \<longleftrightarrow>
     nm t \<and> distinct (map fst a) \<and> list_all (\<lambda>(k, v). nm k \<and> valid_text v) a \<and>
     (\<forall>c \<in> set cs. wf_tree nm c)"
  by (simp add: list_all_iff)

lemma wf_node_children: "wf_tree nm n \<Longrightarrow> c \<in> set (children n) \<Longrightarrow> wf_tree nm c"
  by (cases n) (auto simp: list_all_iff)

lemma wf_node_attrib_value:
  "wf_tree nm n \<Longrightarrow> map_of (attrib n) k = Some v \<Longrightarrow> valid_text v"
  by (cases n) (auto simp: list_all_iff dest!: map_of_SomeD)

lemma wf_tree_mono: "wf_tree P n \<Longrightarrow> (\<And>t. P t \<Longrightarrow> Q t) \<Longrightarrow> wf_tree Q n"
  by (induction P n rule: wf_tree.induct) (auto simp: list_all_iff)

lemma wf_node_lxml_tree: "wf_node n \<Longrightarrow> lxml_tree n"
  by (erule wf_tree_mono) (simp add: ascii_name_def)

lemma wf_new_element: "new_element t = Inr n \<Longrightarrow> ascii_str t \<Longrightarrow> wf_node n"
  by (auto simp add: new_element_def ascii_name_def split: if_splits)

lemma wf_attrib_setitem:
  "wf_node n \<Longrightarrow> ascii_str k \<Longrightarrow> attrib_setitem n k v = Inr n' \<Longrightarrow> wf_node n'"
  by (auto simp: attrib_setitem_Inr_iff distinct_update list_all_iff ascii_name_def
      dest!: set_update_subset [THEN subsetD])

lemma wf_append_child:
  "wf_tree nm n \<Longrightarrow> wf_tree nm c \<Longrightarrow> append_child n c = Inr n' \<Longrightarrow> wf_tree nm n'"
  by (cases n) auto

subsection \<open>Case mapping keeps names valid\<close>

lemma name_start_char_lower_char [simp]: "name_start_char (lower_char c) = name_start_char c"
proof (cases "is_upper c")
  case True
  then have "ord (lower_char c) = ord c + 32" by (simp add: ord_lower_char)
  with True show ?thesis
    by (auto simp: name_start_char_def is_upper_def is_upper_ascii_def is_lower_ascii_def)
qed (simp add: lower_char_fixed)

lemma name_char_lower_char [simp]: "name_char (lower_char c) = name_char c"
proof (cases "is_upper c")
  case True
  then have o: "ord (lower_char c) = ord c + 32" by (simp add: ord_lower_char)
  have "lower_char c \<noteq> CHR ''-'' \<and> lower_char c \<noteq> CHR ''.'' \<and> c \<noteq> CHR ''-'' \<and> c \<noteq> CHR ''.''"
    using True o unfolding char_eq_ord_iff
    by (auto simp: is_upper_def is_upper_ascii_def simp del: of_char_eq_iff)
  with True o show ?thesis
    by (auto simp: name_char_def is_upper_def is_upper_ascii_def is_digit_ascii_def)
qed (simp add: lower_char_fixed)

lemma upper_char_name_start:
  "name_start_char (hd (upper_char c)) = name_start_char c \<and> list_all name_char (tl (upper_char c)) \<and>
   list_all name_char (upper_char c) = name_char c"
proof (cases "is_lower c")
  case True
  from upper_char_lower [OF True] obtain u where
    u: "upper_char c = [u]" and ou: "ord u = ord c - 32" by blast
  have n: "u \<noteq> CHR ''-'' \<and> u \<noteq> CHR ''.'' \<and> c \<noteq> CHR ''-'' \<and> c \<noteq> CHR ''.'' \<and>
      u \<noteq> CHR ''_'' \<and> c \<noteq> CHR ''_''"
    using True ou unfolding char_eq_ord_iff
    by (auto simp: is_lower_def is_lower_ascii_def simp del: of_char_eq_iff)
  from True ou have s: "name_start_char u = name_start_char c"
    using n by (auto simp: name_start_char_def is_lower_def is_lower_ascii_def is_upper_ascii_def)
  from True ou s n have "name_char u = name_char c"
    by (auto simp: name_char_def is_lower_def is_lower_ascii_def is_digit_ascii_def)
  with u s show ?thesis by simp
next
  case False
  show ?thesis
  proof (cases "c = sharp_s")
    case True
    then show ?thesis by (simp add: name_char_def name_start_char_def is_upper_ascii_def)
  next
    case c: False
    from False c have "upper_char c = [c]" by (rule upper_char_other)
    then show ?thesis by simp
  qed
qed

lemma list_all_name_char_str_upper [simp]:
  "list_all name_char (str_upper t) = list_all name_char t"
  by (induction t) (simp_all add: upper_char_name_start)

lemma valid_tag_str_upper [simp]: "valid_tag (str_upper t) = valid_tag t"
proof (cases t)
  case (Cons c cs)
  obtain u us where u: "upper_char c = u # us" by (cases "upper_char c") simp_all
  from upper_char_name_start [of c] u Cons show ?thesis by (simp add: valid_tag.simps)
qed simp

lemma valid_tag_str_lower [simp]: "valid_tag (str_lower t) = valid_tag t"
  by (cases t) (simp_all add: str_lower_def valid_tag.simps list_all_iff)

lemma valid_tag_no_micro_sign: "valid_tag s \<Longrightarrow> micro_sign \<notin> set s"
proof -
  have "\<not> name_char micro_sign" and "\<not> name_start_char micro_sign"
    by (simp_all add: name_char_def name_start_char_def is_upper_ascii_def is_lower_ascii_def
        is_digit_ascii_def)
  then show "valid_tag s \<Longrightarrow> micro_sign \<notin> set s"
    by (cases s) (auto simp: valid_tag.simps list_all_iff)
qed

end
