(* ===== verification/Py_Repr.thy ===== *)
theory Py_Repr
  imports Py_Str
begin

text \<open>
  Python's \<^verbatim>\<open>repr\<close> of the values \<^verbatim>\<open>main\<close> prints: a \<^verbatim>\<open>str\<close>, a
  \<^verbatim>\<open>list\<close>, and (in the component theories) the \<^verbatim>\<open>__repr__\<close> that
  \<^verbatim>\<open>typing.NamedTuple\<close> generates for each class.
  \<^item> \<open>py_str_repr\<close> is CPython's \<^verbatim>\<open>unicode_repr\<close> on code points below 256: the
    quote is \<^verbatim>\<open>"\<close> when the string contains \<^verbatim>\<open>'\<close> and no \<^verbatim>\<open>"\<close>, and
    \<^verbatim>\<open>'\<close> otherwise; the quote and the backslash are escaped with a backslash, tab,
    newline and carriage return as \<^verbatim>\<open>\t \n \r\<close>, the other characters that are not
    printable (below a space, \<^verbatim>\<open>0x7f\<close>--\<^verbatim>\<open>0xa0\<close>, the soft hyphen
    \<^verbatim>\<open>0xad\<close>) as \<^verbatim>\<open>\xhh\<close> with two lower-case hex digits; every other
    character is itself.
  \<^item> \<open>py_list_repr\<close> is \<^verbatim>\<open>list.__repr__\<close>: the items' reprs joined by
    \<^verbatim>\<open>", "\<close> between brackets.
  \<^item> \<open>unrepr_str\<close> reads a string literal back, the way Python's parser reads what
    \<open>repr\<close> wrote, and returns the rest of the input. Reading back what \<open>py_str_repr\<close>
    wrote gives the string and the rest (\<open>unrepr_str_py_str_repr\<close>), so a string's repr
    is never a prefix of another's and the reprs of records built from them determine the
    records.
\<close>

abbreviation backslash :: char where
  "backslash \<equiv> CHR 0x5C"

definition hex_digit :: "nat \<Rightarrow> char" where
  "hex_digit n = char_of (if n < 10 then 48 + n else 87 + n)"

definition hex_value :: "char \<Rightarrow> nat option" where
  "hex_value c =
     (if 48 \<le> ord c \<and> ord c \<le> 57 then Some (ord c - 48)
      else if 97 \<le> ord c \<and> ord c \<le> 102 then Some (ord c - 87) else None)"

definition printable_char :: "char \<Rightarrow> bool" where
  "printable_char c \<longleftrightarrow> (32 \<le> ord c \<and> ord c < 127) \<or> (161 \<le> ord c \<and> ord c \<noteq> 173)"

definition repr_char :: "char \<Rightarrow> char \<Rightarrow> string" where
  "repr_char q c =
     (if c = q \<or> c = backslash then [backslash, c]
      else if c = CHR 0x09 then [backslash, CHR ''t'']
      else if c = CHR 0x0A then [backslash, CHR ''n'']
      else if c = CHR 0x0D then [backslash, CHR ''r'']
      else if printable_char c then [c]
      else [backslash, CHR ''x'', hex_digit (ord c div 16), hex_digit (ord c mod 16)])"

definition repr_quote :: "string \<Rightarrow> char" where
  "repr_quote s = (if CHR 0x27 \<in> set s \<and> CHR 0x22 \<notin> set s then CHR 0x22 else CHR 0x27)"

definition py_str_repr :: "string \<Rightarrow> string" where
  "py_str_repr s = (let q = repr_quote s in q # concat (map (repr_char q) s) @ [q])"

fun py_list_items :: "('a \<Rightarrow> string) \<Rightarrow> 'a list \<Rightarrow> string" where
  "py_list_items f [] = []"
| "py_list_items f [x] = f x"
| "py_list_items f (x # y # zs) = f x @ '', '' @ py_list_items f (y # zs)"

definition py_list_repr :: "('a \<Rightarrow> string) \<Rightarrow> 'a list \<Rightarrow> string" where
  "py_list_repr f xs = ''['' @ py_list_items f xs @ '']''"

definition unescape :: "char \<Rightarrow> char" where
  "unescape d =
     (if d = CHR ''t'' then CHR 0x09 else if d = CHR ''n'' then CHR 0x0A
      else if d = CHR ''r'' then CHR 0x0D else d)"

fun unrepr_body :: "char \<Rightarrow> string \<Rightarrow> (string \<times> string) option" where
  "unrepr_body q [] = None"
| "unrepr_body q (c # cs) =
     (if c = q then Some ([], cs)
      else if c \<noteq> backslash then map_option (apfst (Cons c)) (unrepr_body q cs)
      else (case cs of
              [] \<Rightarrow> None
            | d # ds \<Rightarrow>
                if d \<noteq> CHR ''x'' then map_option (apfst (Cons (unescape d))) (unrepr_body q ds)
                else (case ds of
                        h # l # es \<Rightarrow>
                          (case (hex_value h, hex_value l) of
                             (Some a, Some b) \<Rightarrow>
                               map_option (apfst (Cons (char_of (16 * a + b)))) (unrepr_body q es)
                           | _ \<Rightarrow> None)
                      | _ \<Rightarrow> None)))"

fun unrepr_str :: "string \<Rightarrow> (string \<times> string) option" where
  "unrepr_str [] = None"
| "unrepr_str (q # cs) = (if q = CHR 0x27 \<or> q = CHR 0x22 then unrepr_body q cs else None)"

declare hex_digit_def [model_defs] hex_value_def [model_defs] printable_char_def [model_defs]
  repr_char_def [model_defs] repr_quote_def [model_defs] py_str_repr_def [model_defs]
  py_list_repr_def [model_defs] unescape_def [model_defs]

subsection \<open>Hex escapes\<close>

lemma hex_value_hex_digit: "n < 16 \<Longrightarrow> hex_value (hex_digit n) = Some n"
  by (auto simp: hex_value_def hex_digit_def)

lemma char_of_hex: "char_of (16 * (ord c div 16) + ord c mod 16) = c"
  by simp

subsection \<open>Reading back one character\<close>

lemma unescape_simps:
  "unescape (CHR ''t'') = CHR 0x09" "unescape (CHR ''n'') = CHR 0x0A"
  "unescape (CHR ''r'') = CHR 0x0D" "unescape backslash = backslash"
  by (simp_all add: unescape_def)

lemma unrepr_body_repr_char:
  assumes "q = CHR 0x27 \<or> q = CHR 0x22"
  shows "unrepr_body q (repr_char q c @ rest) = map_option (apfst (Cons c)) (unrepr_body q rest)"
proof -
  have "ord c < 16 * 16" by simp
  then have hi: "hex_value (hex_digit (ord c div 16)) = Some (ord c div 16)"
    by (intro hex_value_hex_digit less_mult_imp_div_less)
  have lo: "hex_value (hex_digit (ord c mod 16)) = Some (ord c mod 16)"
    by (simp add: hex_value_hex_digit)
  from assms have q: "backslash \<noteq> q" "q \<noteq> backslash" "CHR ''x'' \<noteq> q" "q \<noteq> CHR ''x''"
      "unescape q = q"
    by (auto simp: unescape_def)
  show ?thesis
    unfolding repr_char_def by (simp add: q hi lo char_of_hex unescape_simps)
qed

lemma unrepr_body_repr_chars:
  assumes "q = CHR 0x27 \<or> q = CHR 0x22"
  shows "unrepr_body q (concat (map (repr_char q) s) @ q # rest) = Some (s, rest)"
  by (induction s) (simp_all add: unrepr_body_repr_char [OF assms])

lemma repr_quote_cases: "repr_quote s = CHR 0x27 \<or> repr_quote s = CHR 0x22"
  by (simp add: repr_quote_def)

lemma unrepr_str_py_str_repr: "unrepr_str (py_str_repr s @ rest) = Some (s, rest)"
proof -
  have "unrepr_str (py_str_repr s @ rest) =
      unrepr_body (repr_quote s) (concat (map (repr_char (repr_quote s)) s) @ repr_quote s # rest)"
    using repr_quote_cases [of s] by (auto simp: py_str_repr_def Let_def)
  also have "\<dots> = Some (s, rest)"
    using repr_quote_cases [of s] by (rule unrepr_body_repr_chars)
  finally show ?thesis .
qed

lemma py_str_repr_append_eq_iff [simp]:
  "py_str_repr a @ r1 = py_str_repr b @ r2 \<longleftrightarrow> a = b \<and> r1 = r2"
proof
  assume "py_str_repr a @ r1 = py_str_repr b @ r2"
  then have "unrepr_str (py_str_repr a @ r1) = unrepr_str (py_str_repr b @ r2)" by simp
  then show "a = b \<and> r1 = r2" by (simp only: unrepr_str_py_str_repr option.inject prod.inject)
qed simp

subsection \<open>Lists of values whose reprs are self-delimiting\<close>

text \<open>
  When an item's repr is never a prefix of another's and never starts with a closing
  bracket, the items of a list can be read off its repr one by one.
\<close>

lemma py_list_items_append_eq_iff:
  assumes inj: "\<And>a b r1 r2. f a @ r1 = f b @ r2 \<longleftrightarrow> a = b \<and> r1 = r2"
    and start: "\<And>a r s. f a @ r \<noteq> CHR '']'' # s"
  shows "py_list_items f xs @ CHR '']'' # r1 = py_list_items f ys @ CHR '']'' # r2 \<longleftrightarrow>
           xs = ys \<and> r1 = r2"
proof -
  have start': "CHR '']'' # s \<noteq> f a @ r" for a r s using start [of a r s] by metis
  have inj1: "f a @ r1 = f b \<longleftrightarrow> a = b \<and> r1 = []" for a b r1
    using inj [of a r1 b "[]"] by simp
  have inj2: "f a = f b @ r2 \<longleftrightarrow> a = b \<and> r2 = []" for a b r2
    using inj [of a "[]" b r2] by auto
  show ?thesis
  proof (induction xs arbitrary: ys rule: induct_list012)
    case 1
    show ?case
      by (cases ys rule: remdups_adj.cases) (simp_all add: start')
  next
    case (2 x)
    show ?case
      by (cases ys rule: remdups_adj.cases) (simp_all add: start inj)
  next
    case (3 x y zs)
    show ?case
      by (cases ys rule: remdups_adj.cases) (simp_all add: start inj 3(2))
  qed
qed

lemma py_list_repr_append_eq_iff:
  assumes "\<And>a b r1 r2. f a @ r1 = f b @ r2 \<longleftrightarrow> a = b \<and> r1 = r2"
    and "\<And>a r s. f a @ r \<noteq> CHR '']'' # s"
  shows "py_list_repr f xs @ r1 = py_list_repr f ys @ r2 \<longleftrightarrow> xs = ys \<and> r1 = r2"
  using py_list_items_append_eq_iff [OF assms] by (simp add: py_list_repr_def)

end
