(* ===== verification/Build_Rule.thy ===== *)
theory Build_Rule
  imports Etree Py_Repr
begin

text \<open>
  \<^verbatim>\<open>class BuildRule\<close> of \<^verbatim>\<open>src/build_rule.py\<close> (lines 9--32): a rule with four
  string fields, read from the attributes of a \<^verbatim>\<open><rule>\<close> element and written back
  as one. \<open>BuildRule_parse\<close> is \<^verbatim>\<open>BuildRule.parse\<close>, \<open>BuildRule_to_element\<close> is
  \<^verbatim>\<open>BuildRule.to_element\<close>, \<open>BuildRule_repr\<close> the \<^verbatim>\<open>__repr__\<close> that
  \<^verbatim>\<open>NamedTuple\<close> generates from the field list (lines 9--14). The wire name \<^verbatim>\<open>added_contition\<close> is kept as the code
  spells it. The lemmas give both operations on every branch (which attribute a
  missing-attribute error names; when writing raises), and the round trips between them.
\<close>

record BuildRule =
  productname :: string
  added_contition :: string
  addname :: string
  target :: string

definition BuildRule_parse :: "node \<Rightarrow> BuildRule py_result" where
  "BuildRule_parse rule_ele =
     sbind (attrib_getitem rule_ele ''productname'') (\<lambda>v_productname.
     sbind (attrib_getitem rule_ele ''added_contition'') (\<lambda>v_added_contition.
     sbind (attrib_getitem rule_ele ''addname'') (\<lambda>v_addname.
     sbind (attrib_getitem rule_ele ''target'') (\<lambda>v_target.
     Inr \<lparr>productname = v_productname, added_contition = v_added_contition,
          addname = v_addname, target = v_target\<rparr>))))"

definition BuildRule_to_element :: "BuildRule \<Rightarrow> (bool \<times> node option) py_result" where
  "BuildRule_to_element r =
     sbind (new_element ''rule'') (\<lambda>rule_ele.
     sbind (attrib_setitem rule_ele ''productname'' (productname r)) (\<lambda>rule_ele.
     sbind (attrib_setitem rule_ele ''added_contition'' (added_contition r)) (\<lambda>rule_ele.
     sbind (attrib_setitem rule_ele ''addname'' (addname r)) (\<lambda>rule_ele.
     sbind (attrib_setitem rule_ele ''target'' (target r)) (\<lambda>rule_ele.
     Inr (True, Some rule_ele))))))"

definition BuildRule_repr :: "BuildRule \<Rightarrow> string" where
  "BuildRule_repr r =
     ''BuildRule(productname='' @ py_str_repr (productname r) @
     '', added_contition='' @ py_str_repr (added_contition r) @
     '', addname='' @ py_str_repr (addname r) @
     '', target='' @ py_str_repr (target r) @ '')''"

text \<open>The wire names in the order the code reads and writes them, and a rule's values.\<close>

definition rule_keys :: "string list" where
  "rule_keys = [''productname'', ''added_contition'', ''addname'', ''target'']"

definition rule_values :: "BuildRule \<Rightarrow> string list" where
  "rule_values r = [productname r, added_contition r, addname r, target r]"

definition rule_attrs :: "BuildRule \<Rightarrow> (string \<times> string) list" where
  "rule_attrs r = zip rule_keys (rule_values r)"

definition rule_valid :: "BuildRule \<Rightarrow> bool" where
  "rule_valid r \<longleftrightarrow> list_all valid_text (rule_values r)"

definition rule_element :: "BuildRule \<Rightarrow> node" where
  "rule_element r = Element ''rule'' (rule_attrs r) []"

declare BuildRule_parse_def [model_defs] BuildRule_to_element_def [model_defs]
  BuildRule_repr_def [model_defs]
  rule_keys_def [model_defs] rule_values_def [model_defs] rule_attrs_def [model_defs]
  rule_valid_def [model_defs] rule_element_def [model_defs]

lemma valid_tag_rule_literals [simp]:
  "valid_tag ''rule''" "valid_tag ''productname''" "valid_tag ''added_contition''"
  "valid_tag ''addname''" "valid_tag ''target''"
  by (simp_all add: model_defs)

lemma ascii_name_rule_literals [simp]:
  "ascii_name ''rule''" "ascii_name ''productname''" "ascii_name ''added_contition''"
  "ascii_name ''addname''" "ascii_name ''target''"
  by (simp_all add: ascii_name_def ascii_str_def is_ascii_def)

subsection \<open>Reading a rule\<close>

text \<open>
  C5. Attribute fidelity of \<^verbatim>\<open>BuildRule.parse\<close>: it returns a rule exactly when the
  four wire attributes are present, and each field of that rule is the attribute's value
  unchanged (no trimming, case folding or coercion).
\<close>

lemma BuildRule_parse_Inr_iff:
  "BuildRule_parse e = Inr r \<longleftrightarrow>
     list_all2 (\<lambda>k v. map_of (attrib e) k = Some v) rule_keys (rule_values r)"
  by (auto simp: BuildRule_parse_def sbind_eq_Inr_iff attrib_getitem_Inr_iff rule_keys_def
      rule_values_def)

text \<open>
  C6. Missing-attribute rejection: \<^verbatim>\<open>BuildRule.parse\<close> raises exactly when one of
  the four attributes is absent, and the \<open>KeyError\<close> names the first absent one in the
  order the code reads them (\<^verbatim>\<open>productname\<close>, \<^verbatim>\<open>added_contition\<close>,
  \<^verbatim>\<open>addname\<close>, \<^verbatim>\<open>target\<close>).
\<close>

lemma BuildRule_parse_Inl_iff:
  "BuildRule_parse e = Inl err \<longleftrightarrow>
     (\<exists>k. find (\<lambda>k. map_of (attrib e) k = None) rule_keys = Some k \<and> err = KeyError k)"
  by (auto simp: BuildRule_parse_def attrib_getitem_def rule_keys_def split: option.splits)

text \<open>
  C21. \<^verbatim>\<open>BuildRule.parse\<close> never looks at the element's tag or children: any element
  carrying the four attributes is read as a rule, not only a \<^verbatim>\<open><rule>\<close> element.
\<close>

lemma BuildRule_parse_ignores_tag:
  "BuildRule_parse (Element t a cs) = BuildRule_parse (Element t' a cs')"
  by (simp add: BuildRule_parse_def attrib_getitem_def)

lemma BuildRule_parse_Comment: "BuildRule_parse (Comment s) = Inl (KeyError ''productname'')"
  by (simp add: BuildRule_parse_def attrib_getitem_def)

subsection \<open>Writing a rule\<close>

text \<open>
  C13. \<^verbatim>\<open>BuildRule.to_element\<close> on every branch: it builds a \<^verbatim>\<open><rule>\<close> element
  with the four attributes in the code's order and returns \<^verbatim>\<open>(True, element)\<close>, unless
  a value is not XML text, when lxml's attribute assignment raises \<open>ValueError\<close>. It
  never returns \<^verbatim>\<open>(False, ...)\<close>.
\<close>

lemma BuildRule_to_element_eq:
  "BuildRule_to_element r =
     (if rule_valid r then Inr (True, Some (Element ''rule'' (rule_attrs r) [])) else Inl ValueError)"
  by (auto simp: BuildRule_to_element_def new_element_def rule_valid_def rule_values_def
      rule_attrs_def rule_keys_def)

lemma BuildRule_to_element_rule_element:
  "BuildRule_to_element r = (if rule_valid r then Inr (True, Some (rule_element r)) else Inl ValueError)"
  by (simp add: rule_element_def BuildRule_to_element_eq)

lemma BuildRule_parse_rule_element: "BuildRule_parse (rule_element r) = Inr r"
  by (simp add: rule_element_def BuildRule_parse_def attrib_getitem_def rule_attrs_def
      rule_keys_def rule_values_def)

lemma wf_rule_element: "rule_valid r \<Longrightarrow> wf_node (rule_element r)"
  by (simp add: rule_element_def rule_attrs_def rule_keys_def rule_values_def rule_valid_def)

lemma rule_valid_parse:
  assumes "wf_tree nm e" and "BuildRule_parse e = Inr r"
  shows "rule_valid r"
proof -
  from assms(2) have "list_all2 (\<lambda>k v. map_of (attrib e) k = Some v) rule_keys (rule_values r)"
    by (simp only: BuildRule_parse_Inr_iff)
  with assms(1) show ?thesis
    by (auto simp: rule_valid_def list_all2_conv_all_nth list_all_length
        intro: wf_node_attrib_value)
qed

subsection \<open>Round trips\<close>

text \<open>
  C3. Writing a rule and reading the element back gives the same rule.
\<close>

lemma BuildRule_roundtrip:
  "BuildRule_to_element r = Inr (True, Some e) \<Longrightarrow> BuildRule_parse e = Inr r"
  by (auto simp add: BuildRule_to_element_rule_element BuildRule_parse_rule_element split: if_splits)

lemma BuildRule_roundtrip_witness:
  "BuildRule_to_element \<lparr>productname = ''p1'', added_contition = ''c1'', addname = ''a1'',
      target = ''t1''\<rparr> = Inr (True, Some (Element ''rule'' [(''productname'', ''p1''),
      (''added_contition'', ''c1''), (''addname'', ''a1''), (''target'', ''t1'')] [])) \<and>
   BuildRule_parse (Element ''rule'' [(''productname'', ''p1''), (''added_contition'', ''c1''),
      (''addname'', ''a1''), (''target'', ''t1'')] []) =
   Inr \<lparr>productname = ''p1'', added_contition = ''c1'', addname = ''a1'', target = ''t1''\<rparr>"
proof
  show ok: "BuildRule_to_element \<lparr>productname = ''p1'', added_contition = ''c1'', addname = ''a1'',
      target = ''t1''\<rparr> = Inr (True, Some (Element ''rule'' [(''productname'', ''p1''),
      (''added_contition'', ''c1''), (''addname'', ''a1''), (''target'', ''t1'')] []))"
    by (simp add: model_defs)
  from BuildRule_roundtrip [OF ok] show "BuildRule_parse (Element ''rule'' [(''productname'', ''p1''),
      (''added_contition'', ''c1''), (''addname'', ''a1''), (''target'', ''t1'')] []) =
   Inr \<lparr>productname = ''p1'', added_contition = ''c1'', addname = ''a1'', target = ''t1''\<rparr>" .
qed

text \<open>
  Every rule read from a well-formed tree can be written back, to a \<^verbatim>\<open><rule>\<close>
  element that carries, under each wire name, the value that was read.
\<close>

lemma BuildRule_parse_to_element:
  assumes "wf_node e" and "BuildRule_parse e = Inr r"
  shows "BuildRule_to_element r = Inr (True, Some (Element ''rule'' (rule_attrs r) [])) \<and>
         (\<forall>k \<in> set rule_keys. map_of (rule_attrs r) k = map_of (attrib e) k)"
proof
  from assms have "rule_valid r" by (rule rule_valid_parse)
  then show "BuildRule_to_element r = Inr (True, Some (Element ''rule'' (rule_attrs r) []))"
    by (simp add: BuildRule_to_element_eq)
  from assms(2) show "\<forall>k \<in> set rule_keys. map_of (rule_attrs r) k = map_of (attrib e) k"
    by (auto simp: BuildRule_parse_def sbind_eq_Inr_iff attrib_getitem_Inr_iff rule_attrs_def
        rule_keys_def rule_values_def)
qed

lemma BuildRule_parse_to_element_witness:
  "BuildRule_to_element \<lparr>productname = ''p1'', added_contition = ''c1'', addname = ''a1'',
      target = ''t1''\<rparr> = Inr (True, Some (Element ''rule'' [(''productname'', ''p1''),
      (''added_contition'', ''c1''), (''addname'', ''a1''), (''target'', ''t1'')] []))"
proof -
  let ?e = "Element ''rule'' [(''target'', ''t1''), (''addname'', ''a1''),
      (''added_contition'', ''c1''), (''productname'', ''p1''), (''extra'', ''x'')] []"
  have wf: "wf_node ?e" by (simp add: model_defs)
  have p: "BuildRule_parse ?e =
    Inr \<lparr>productname = ''p1'', added_contition = ''c1'', addname = ''a1'', target = ''t1''\<rparr>"
    by (simp add: model_defs)
  from BuildRule_parse_to_element [OF wf p] show ?thesis
    by (simp add: rule_attrs_def rule_keys_def rule_values_def)
qed

subsection \<open>The printed form\<close>

text \<open>A rule's repr determines the rule and is never a prefix of another rule's repr.\<close>

lemma BuildRule_repr_append_eq_iff [simp]:
  "BuildRule_repr a @ r1 = BuildRule_repr b @ r2 \<longleftrightarrow> a = b \<and> r1 = r2"
  by (cases a, cases b) (auto simp: BuildRule_repr_def)

lemma BuildRule_repr_not_bracket: "BuildRule_repr a @ r \<noteq> CHR '']'' # s"
  by (simp add: BuildRule_repr_def)

end
