(* ===== verification/Build_Group.thy ===== *)
theory Build_Group
  imports Build_Rule
begin

text \<open>
  \<^verbatim>\<open>class BuildGroup\<close> of \<^verbatim>\<open>src/build_rule.py\<close> (lines 35--67): a named, weighted
  group owning an ordered list of rules. \<open>BuildGroup_parse\<close> is
  \<^verbatim>\<open>BuildGroup.parse\<close>: three attributes, then every child element read as a rule by
  the code's append loop (\<open>append_loop\<close>, whose meaning is \<open>traverse\<close>).
  \<open>BuildGroup_to_element\<close> is \<^verbatim>\<open>BuildGroup.to_element\<close>: a \<^verbatim>\<open><buildgroup>\<close>
  element with the three attributes, then each rule converted and appended by the shared
  \<open>to_element_loop\<close>. \<open>BuildGroup_repr\<close> is the generated \<^verbatim>\<open>__repr__\<close>
  (lines 35--40), printing the rules as a Python list. The lemmas give both operations on every branch, the order in
  which errors are raised, the round trips, and what the code accepts that the format does
  not describe (any tag, comments among the rules).
\<close>

record BuildGroup =
  name :: string
  weight :: string
  producttype :: string
  rules :: "BuildRule list"

definition BuildGroup_parse :: "node \<Rightarrow> BuildGroup py_result" where
  "BuildGroup_parse buildgroup_ele =
     sbind (attrib_getitem buildgroup_ele ''name'') (\<lambda>v_name.
     sbind (attrib_getitem buildgroup_ele ''weight'') (\<lambda>v_weight.
     sbind (attrib_getitem buildgroup_ele ''producttype'') (\<lambda>v_producttype.
     sbind (append_loop BuildRule_parse [] (children buildgroup_ele)) (\<lambda>v_rules.
     Inr \<lparr>name = v_name, weight = v_weight, producttype = v_producttype, rules = v_rules\<rparr>))))"

definition BuildGroup_to_element :: "BuildGroup \<Rightarrow> (bool \<times> node option) py_result" where
  "BuildGroup_to_element g =
     sbind (new_element ''buildgroup'') (\<lambda>buildgroup_ele.
     sbind (attrib_setitem buildgroup_ele ''name'' (name g)) (\<lambda>buildgroup_ele.
     sbind (attrib_setitem buildgroup_ele ''weight'' (weight g)) (\<lambda>buildgroup_ele.
     sbind (attrib_setitem buildgroup_ele ''producttype'' (producttype g)) (\<lambda>buildgroup_ele.
     to_element_loop BuildRule_to_element buildgroup_ele (rules g)))))"

definition BuildGroup_repr :: "BuildGroup \<Rightarrow> string" where
  "BuildGroup_repr g =
     ''BuildGroup(name='' @ py_str_repr (name g) @
     '', weight='' @ py_str_repr (weight g) @
     '', producttype='' @ py_str_repr (producttype g) @
     '', rules='' @ py_list_repr BuildRule_repr (rules g) @ '')''"

text \<open>The group's wire names in the code's order, its values, and the element it is written to.\<close>

definition group_keys :: "string list" where
  "group_keys = [''name'', ''weight'', ''producttype'']"

definition group_values :: "BuildGroup \<Rightarrow> string list" where
  "group_values g = [name g, weight g, producttype g]"

definition group_attrs :: "BuildGroup \<Rightarrow> (string \<times> string) list" where
  "group_attrs g = zip group_keys (group_values g)"

definition group_valid :: "BuildGroup \<Rightarrow> bool" where
  "group_valid g \<longleftrightarrow> list_all valid_text (group_values g) \<and> list_all rule_valid (rules g)"

definition group_element :: "BuildGroup \<Rightarrow> node" where
  "group_element g = Element ''buildgroup'' (group_attrs g) (map rule_element (rules g))"

declare BuildGroup_repr_def [model_defs]

declare BuildGroup_parse_def [model_defs] BuildGroup_to_element_def [model_defs]
  group_keys_def [model_defs] group_values_def [model_defs] group_attrs_def [model_defs]
  group_valid_def [model_defs] group_element_def [model_defs]

lemma valid_tag_group_literals [simp]:
  "valid_tag ''buildgroup''" "valid_tag ''name''" "valid_tag ''weight''" "valid_tag ''producttype''"
  by (simp_all add: model_defs)

lemma ascii_name_group_literals [simp]:
  "ascii_name ''buildgroup''" "ascii_name ''name''" "ascii_name ''weight''" "ascii_name ''producttype''"
  by (simp_all add: ascii_name_def ascii_str_def is_ascii_def)

lemma BuildGroup_parse_header:
  "BuildGroup_parse e =
     (case find (\<lambda>k. map_of (attrib e) k = None) group_keys of
        Some k \<Rightarrow> Inl (KeyError k)
      | None \<Rightarrow> sbind (traverse BuildRule_parse (children e)) (\<lambda>rs.
          Inr \<lparr>name = the (map_of (attrib e) ''name''), weight = the (map_of (attrib e) ''weight''),
               producttype = the (map_of (attrib e) ''producttype''), rules = rs\<rparr>))"
  by (auto simp: BuildGroup_parse_def attrib_getitem_def group_keys_def append_loop_traverse
      split: option.splits)

lemma BuildGroup_to_element_group_element:
  "BuildGroup_to_element g = (if group_valid g then Inr (True, Some (group_element g)) else Inl ValueError)"
proof -
  have loop: "to_element_loop BuildRule_to_element (Element t a []) (rules g) =
      (if list_all rule_valid (rules g) then Inr (True, Some (Element t a (map rule_element (rules g))))
       else Inl ValueError)" for t a
    by (simp add: to_element_loop_eq BuildRule_to_element_rule_element)
  show ?thesis
    by (simp add: BuildGroup_to_element_def new_element_def loop group_valid_def group_values_def
        group_element_def group_attrs_def group_keys_def)
qed

lemma BuildGroup_parse_group_element: "BuildGroup_parse (group_element g) = Inr g"
  by (simp add: BuildGroup_parse_header group_element_def group_attrs_def group_keys_def
      group_values_def traverse_map_inverse BuildRule_parse_rule_element)

lemma wf_group_element: "group_valid g \<Longrightarrow> wf_node (group_element g)"
  by (auto simp: group_element_def group_attrs_def group_keys_def group_values_def group_valid_def
      list_all_iff wf_rule_element)

lemma group_valid_parse:
  assumes "wf_tree nm e" and "BuildGroup_parse e = Inr g"
  shows "group_valid g"
proof -
  from assms(2) obtain rs where
    hdr: "find (\<lambda>k. map_of (attrib e) k = None) group_keys = None" and
    rs: "traverse BuildRule_parse (children e) = Inr rs" and
    g: "g = \<lparr>name = the (map_of (attrib e) ''name''), weight = the (map_of (attrib e) ''weight''),
             producttype = the (map_of (attrib e) ''producttype''), rules = rs\<rparr>"
    by (auto simp: BuildGroup_parse_header sbind_eq_Inr_iff split: option.splits)
  from hdr have "map_of (attrib e) k \<noteq> None" if "k \<in> set group_keys" for k
    using that by (auto simp: find_None_iff)
  with assms(1) have vals: "list_all valid_text (group_values g)"
    by (auto simp: g group_values_def group_keys_def intro: wf_node_attrib_value)
  from rs have rs2: "list_all2 (\<lambda>c r. BuildRule_parse c = Inr r) (children e) rs"
    by (simp add: traverse_eq_Inr_iff)
  have "rule_valid (rs ! i)" if "i < length rs" for i
  proof -
    from that rs2 have i: "i < length (children e)"
      and p: "BuildRule_parse (children e ! i) = Inr (rs ! i)"
      by (auto simp: list_all2_conv_all_nth)
    from assms(1) nth_mem [OF i] have "wf_tree nm (children e ! i)"
      by (rule wf_node_children)
    then show ?thesis using p by (rule rule_valid_parse)
  qed
  then have "list_all rule_valid rs" by (simp add: list_all_length)
  with vals show ?thesis by (simp add: group_valid_def g)
qed

subsection \<open>Reading a group\<close>

text \<open>
  C7. Attribute fidelity and order preservation of \<^verbatim>\<open>BuildGroup.parse\<close>: it returns a
  group exactly when the three attributes are present and every child parses as a rule;
  the group's fields are the attribute values unchanged, and its rule list is the
  children's rules in document order.
\<close>

lemma BuildGroup_parse_Inr_iff:
  "BuildGroup_parse e = Inr g \<longleftrightarrow>
     list_all2 (\<lambda>k v. map_of (attrib e) k = Some v) group_keys (group_values g) \<and>
     list_all2 (\<lambda>c r. BuildRule_parse c = Inr r) (children e) (rules g)"
  by (cases g) (auto simp: BuildGroup_parse_def sbind_eq_Inr_iff attrib_getitem_Inr_iff
      append_loop_traverse traverse_eq_Inr_iff group_keys_def group_values_def)

text \<open>
  C8. Error order of \<^verbatim>\<open>BuildGroup.parse\<close>: a missing group attribute is reported
  first, as a \<open>KeyError\<close> naming the first absent one of \<^verbatim>\<open>name\<close>,
  \<^verbatim>\<open>weight\<close>, \<^verbatim>\<open>producttype\<close>; otherwise the error is the one raised by the
  first child that fails to parse as a rule, all children before it having parsed.
\<close>

lemma BuildGroup_parse_Inl_iff:
  "BuildGroup_parse e = Inl err \<longleftrightarrow>
     (case find (\<lambda>k. map_of (attrib e) k = None) group_keys of
        Some k \<Rightarrow> err = KeyError k
      | None \<Rightarrow> (\<exists>cs1 c cs2. children e = cs1 @ c # cs2 \<and>
                  list_all (\<lambda>c. \<exists>r. BuildRule_parse c = Inr r) cs1 \<and> BuildRule_parse c = Inl err))"
proof (cases "find (\<lambda>k. map_of (attrib e) k = None) group_keys")
  case None
  then have "BuildGroup_parse e = Inl err \<longleftrightarrow> traverse BuildRule_parse (children e) = Inl err"
    by (cases "traverse BuildRule_parse (children e)") (auto simp: BuildGroup_parse_header)
  with None show ?thesis by (simp add: traverse_eq_Inl_iff)
next
  case (Some k)
  then show ?thesis by (auto simp: BuildGroup_parse_header)
qed

text \<open>
  C23. A comment among a group's children makes \<^verbatim>\<open>BuildGroup.parse\<close> fail: lxml
  iterates comments with the elements, a comment has no attributes, and
  \<^verbatim>\<open>BuildRule.parse\<close> raises \<open>KeyError\<close> on it. The format description does not
  mention comments.
\<close>

lemma BuildGroup_parse_comment_child:
  "Comment s \<in> set (children e) \<Longrightarrow> BuildGroup_parse e \<noteq> Inr g"
  by (auto simp: BuildGroup_parse_Inr_iff list_all2_conv_all_nth in_set_conv_nth
      BuildRule_parse_Comment)

lemma BuildGroup_parse_comment_child_witness:
  "Comment '' one rule '' \<in> set (children (Element ''buildgroup''
      [(''name'', ''g1''), (''weight'', ''10''), (''producttype'', ''app'')] [Comment '' one rule ''])) \<and>
   BuildGroup_parse (Element ''buildgroup''
      [(''name'', ''g1''), (''weight'', ''10''), (''producttype'', ''app'')] [Comment '' one rule '']) \<noteq>
   Inr \<lparr>name = ''g1'', weight = ''10'', producttype = ''app'', rules = []\<rparr>"
  using BuildGroup_parse_comment_child [of "'' one rule ''" "Element ''buildgroup''
      [(''name'', ''g1''), (''weight'', ''10''), (''producttype'', ''app'')] [Comment '' one rule '']"
      "\<lparr>name = ''g1'', weight = ''10'', producttype = ''app'', rules = []\<rparr>"]
  by simp

text \<open>
  \<^verbatim>\<open>BuildGroup.parse\<close> never looks at the element's tag: the format's fixed
  \<^verbatim>\<open>buildgroup\<close> tag is not checked on reading.
\<close>

lemma BuildGroup_parse_ignores_tag:
  "BuildGroup_parse (Element t a cs) = BuildGroup_parse (Element t' a cs)"
  by (simp add: BuildGroup_parse_def attrib_getitem_def)

subsection \<open>Writing a group\<close>

text \<open>
  C14. \<^verbatim>\<open>BuildGroup.to_element\<close> on every branch: a \<^verbatim>\<open><buildgroup>\<close> element with
  the three attributes and one \<^verbatim>\<open><rule>\<close> child per rule, in the rules' order; or
  \<open>ValueError\<close> when an attribute value of the group or of one of its rules is not XML
  text. The \<^verbatim>\<open>(False, None)\<close> branch of the loop is never taken.
\<close>

lemma BuildGroup_to_element_eq:
  "BuildGroup_to_element g =
     (if group_valid g
      then Inr (True, Some (Element ''buildgroup'' (group_attrs g) (map rule_element (rules g))))
      else Inl ValueError)"
  by (simp add: BuildGroup_to_element_group_element group_element_def)

subsection \<open>Round trips\<close>

text \<open>
  C4. Writing a group and reading the element back gives the same group: the same
  attribute values and the same rules in the same order.
\<close>

lemma BuildGroup_roundtrip:
  "BuildGroup_to_element g = Inr (True, Some e) \<Longrightarrow> BuildGroup_parse e = Inr g"
  by (auto simp: BuildGroup_to_element_group_element BuildGroup_parse_group_element
      split: if_splits)

lemma BuildGroup_roundtrip_witness:
  "BuildGroup_to_element \<lparr>name = ''g1'', weight = ''10'', producttype = ''app'',
      rules = [\<lparr>productname = ''p1'', added_contition = ''c1'', addname = ''a1'', target = ''t1''\<rparr>,
               \<lparr>productname = ''p2'', added_contition = ''c2'', addname = ''a2'', target = ''t2''\<rparr>]\<rparr> =
   Inr (True, Some (Element ''buildgroup'' [(''name'', ''g1''), (''weight'', ''10''), (''producttype'', ''app'')]
     [Element ''rule'' [(''productname'', ''p1''), (''added_contition'', ''c1''), (''addname'', ''a1''),
        (''target'', ''t1'')] [],
      Element ''rule'' [(''productname'', ''p2''), (''added_contition'', ''c2''), (''addname'', ''a2''),
        (''target'', ''t2'')] []])) \<and>
   BuildGroup_parse (Element ''buildgroup'' [(''name'', ''g1''), (''weight'', ''10''), (''producttype'', ''app'')]
     [Element ''rule'' [(''productname'', ''p1''), (''added_contition'', ''c1''), (''addname'', ''a1''),
        (''target'', ''t1'')] [],
      Element ''rule'' [(''productname'', ''p2''), (''added_contition'', ''c2''), (''addname'', ''a2''),
        (''target'', ''t2'')] []]) =
   Inr \<lparr>name = ''g1'', weight = ''10'', producttype = ''app'',
      rules = [\<lparr>productname = ''p1'', added_contition = ''c1'', addname = ''a1'', target = ''t1''\<rparr>,
               \<lparr>productname = ''p2'', added_contition = ''c2'', addname = ''a2'', target = ''t2''\<rparr>]\<rparr>"
  (is "?w = Inr (True, Some ?e) \<and> BuildGroup_parse _ = Inr ?g")
proof
  show ok: "?w = Inr (True, Some ?e)" by (simp add: model_defs)
  from BuildGroup_roundtrip [OF ok] show "BuildGroup_parse ?e = Inr ?g" .
qed

text \<open>
  C25. Empty group: a \<^verbatim>\<open>buildgroup\<close> element without children is read as a group with
  no rules, which is written back as a \<^verbatim>\<open><buildgroup>\<close> element without children and
  with the same three attribute values.
\<close>

lemma BuildGroup_empty:
  assumes "wf_node e" and "children e = []" and "BuildGroup_parse e = Inr g"
  shows "rules g = [] \<and>
         BuildGroup_to_element g = Inr (True, Some (Element ''buildgroup'' (group_attrs g) [])) \<and>
         (\<forall>k \<in> set group_keys. map_of (group_attrs g) k = map_of (attrib e) k)"
proof (intro conjI)
  from assms(3) have parsed:
    "list_all2 (\<lambda>k v. map_of (attrib e) k = Some v) group_keys (group_values g) \<and>
     list_all2 (\<lambda>c r. BuildRule_parse c = Inr r) (children e) (rules g)"
    by (simp only: BuildGroup_parse_Inr_iff)
  with assms(2) show empty: "rules g = []" by simp
  from assms(1,3) have "group_valid g" by (rule group_valid_parse)
  with empty show "BuildGroup_to_element g = Inr (True, Some (Element ''buildgroup'' (group_attrs g) []))"
    by (simp add: BuildGroup_to_element_group_element group_element_def)
  from parsed show "\<forall>k \<in> set group_keys. map_of (group_attrs g) k = map_of (attrib e) k"
    by (auto simp: group_attrs_def group_keys_def group_values_def)
qed

lemma BuildGroup_empty_witness:
  "BuildGroup_to_element \<lparr>name = ''g1'', weight = ''10'', producttype = ''app'', rules = []\<rparr> =
     Inr (True, Some (Element ''buildgroup'' [(''name'', ''g1''), (''weight'', ''10''),
       (''producttype'', ''app'')] []))"
proof -
  let ?e = "Element ''buildgroup'' [(''producttype'', ''app''), (''weight'', ''10''), (''name'', ''g1'')] []"
  have wf: "wf_node ?e" by (simp add: model_defs)
  have nil: "children ?e = []" by simp
  have p: "BuildGroup_parse ?e = Inr \<lparr>name = ''g1'', weight = ''10'', producttype = ''app'', rules = []\<rparr>"
    by (simp add: model_defs)
  from BuildGroup_empty [OF wf nil p] show ?thesis
    by (simp add: group_attrs_def group_keys_def group_values_def)
qed

subsection \<open>The printed form\<close>

lemma BuildGroup_repr_append_eq_iff [simp]:
  "BuildGroup_repr a @ r1 = BuildGroup_repr b @ r2 \<longleftrightarrow> a = b \<and> r1 = r2"
  by (cases a, cases b) (auto simp: BuildGroup_repr_def
      py_list_repr_append_eq_iff [OF BuildRule_repr_append_eq_iff BuildRule_repr_not_bracket])

lemma BuildGroup_repr_not_bracket: "BuildGroup_repr a @ r \<noteq> CHR '']'' # s"
  by (simp add: BuildGroup_repr_def)

end
