(* ===== verification/Build_Rule_File.thy ===== *)
theory Build_Rule_File
  imports Build_Group
begin

text \<open>
  \<^verbatim>\<open>class BuildRuleFile\<close> of \<^verbatim>\<open>src/build_rule.py\<close> (lines 70--108) and
  \<^verbatim>\<open>main\<close> (lines 111--114). A document is a version string and an ordered list of
  groups.
  \<^item> Files are an explicit store \<open>filesystem\<close>: a path holds either an XML tree (what
    \<^verbatim>\<open>etree.parse\<close> returns for it) or bytes that are not XML. \<open>etree_parse\<close>
    raises \<open>OSError\<close> for a missing file and \<open>XMLSyntaxError\<close> for bad contents;
    \<^verbatim>\<open>tree.write\<close> stores the tree (pretty-printing only adds whitespace text, which
    is not a child and is not modelled).
  \<^item> What the operating system does with the write is a parameter \<open>os_write\<close> of the
    operations that write: success, a failure to open the file (\<open>OSError\<close>, nothing
    changed) or a failure midway (\<open>OSError\<close>, a partial file that is not XML).
    \<open>tree_write\<close> is lxml's \<^verbatim>\<open>ElementTree.write\<close> under that outcome. An operation
    that writes returns its outcome together with the file store, because a write that
    raises may still have changed the store.
  \<^item> \<open>BuildRuleFile_parse_root\<close> is lines 80--88 on the root element:
    \<^verbatim>\<open>root[0]\<close> (\<open>IndexError\<close> without children), its tag lowered
    (\<open>AttributeError\<close> when that child is a comment, whose \<^verbatim>\<open>tag\<close> is not a
    string), then each of its children read as a group. \<open>BuildRuleFile_parse\<close> is the
    whole classmethod.
  \<^item> \<open>BuildRuleFile_to_element\<close> is lines 90--99. The code attaches the version element
    to the root first (\<^verbatim>\<open>etree.SubElement\<close>) and then appends groups to it through
    the reference it holds; this model appends the groups first and attaches the version
    element once the loop is done. Theory \<open>To_Element_Heap\<close> runs the code's order on
    lxml's element objects and proves that it builds the same tree and raises the same
    errors.
  \<^item> \<open>BuildRuleFile_write\<close> is lines 101--108 and \<open>BuildRuleFile_repr\<close> the
    generated \<^verbatim>\<open>__repr__\<close> (lines 70--73).
  \<^item> \<open>main\<close> is lines 111--114. Its value is the text it printed, its outcome (it
    returned, or the exception it raised) and the file store after it. \<^verbatim>\<open>print(brfile)\<close> writes the
    document's repr and a newline before the document is written back, so a write that
    raises still leaves that line printed; a parse that raises prints nothing.
\<close>

record BuildRuleFile =
  version :: string
  buildgroups :: "BuildGroup list"

datatype contents = Xml node | NotXml

type_synonym filesystem = "string \<Rightarrow> contents option"

definition etree_parse :: "filesystem \<Rightarrow> string \<Rightarrow> node py_result" where
  "etree_parse fs filepath =
     (case fs filepath of
        None \<Rightarrow> Inl OSError
      | Some NotXml \<Rightarrow> Inl XMLSyntaxError
      | Some (Xml root) \<Rightarrow> Inr root)"

definition BuildRuleFile_parse_root :: "node \<Rightarrow> BuildRuleFile py_result" where
  "BuildRuleFile_parse_root root =
     sbind (child_at root 0) (\<lambda>version_ele.
     sbind (case version_ele of
              Element tg _ _ \<Rightarrow> Inr (str_lower tg)
            | Comment _ \<Rightarrow> Inl AttributeError) (\<lambda>v_version.
     sbind (append_loop BuildGroup_parse [] (children version_ele)) (\<lambda>v_buildgroups.
     Inr \<lparr>version = v_version, buildgroups = v_buildgroups\<rparr>)))"

definition BuildRuleFile_parse :: "filesystem \<Rightarrow> string \<Rightarrow> BuildRuleFile py_result" where
  "BuildRuleFile_parse fs filepath = sbind (etree_parse fs filepath) BuildRuleFile_parse_root"

definition BuildRuleFile_to_element :: "BuildRuleFile \<Rightarrow> (bool \<times> node option) py_result" where
  "BuildRuleFile_to_element d =
     sbind (new_element ''BUILD_RULE'') (\<lambda>root_ele.
     sbind (new_element (str_upper (version d))) (\<lambda>version_ele.
     sbind (to_element_loop BuildGroup_to_element version_ele (buildgroups d)) (\<lambda>(ret, version_ele).
       if \<not> ret then Inr (False, None)
       else (case version_ele of
               None \<Rightarrow> Inl TypeError
             | Some version_ele \<Rightarrow>
                 sbind (append_child root_ele version_ele) (\<lambda>root_ele. Inr (True, Some root_ele))))))"

text \<open>
  What the operating system does with \<^verbatim>\<open>tree.write(filepath)\<close>: the file is opened
  (created or truncated) and the serialized tree written. Opening can fail (a missing
  directory, no permission, the path is a directory): \<open>OSError\<close>, the file is untouched.
  Writing can fail after the file was truncated (a full disk, an I/O error): \<open>OSError\<close>,
  and the file is left holding a proper prefix of the document, which is not a well-formed
  XML document (its root is never closed), so it reads as bytes that are not XML.
\<close>

datatype os_write = Os_ok | Os_open_error | Os_write_error

definition tree_write :: "os_write \<Rightarrow> node \<Rightarrow> string \<Rightarrow> filesystem \<Rightarrow> unit py_result \<times> filesystem" where
  "tree_write os root filepath fs =
     (case os of
        Os_ok \<Rightarrow> (Inr (), fs(filepath \<mapsto> Xml root))
      | Os_open_error \<Rightarrow> (Inl OSError, fs)
      | Os_write_error \<Rightarrow> (Inl OSError, fs(filepath \<mapsto> NotXml)))"

definition BuildRuleFile_write ::
  "os_write \<Rightarrow> BuildRuleFile \<Rightarrow> string \<Rightarrow> filesystem \<Rightarrow> bool py_result \<times> filesystem"
where
  "BuildRuleFile_write os d filepath fs =
     (case BuildRuleFile_to_element d of
        Inl e \<Rightarrow> (Inl e, fs)
      | Inr (ret, root_ele) \<Rightarrow>
          if \<not> ret then (Inr False, fs)
          else (case root_ele of
                  None \<Rightarrow> (Inl AssertionError, fs)
                | Some root \<Rightarrow>
                    (case tree_write os root filepath fs of
                       (r, fs') \<Rightarrow> (sbind r (\<lambda>_. Inr True), fs'))))"

definition BuildRuleFile_repr :: "BuildRuleFile \<Rightarrow> string" where
  "BuildRuleFile_repr d =
     ''BuildRuleFile(version='' @ py_str_repr (version d) @
     '', buildgroups='' @ py_list_repr BuildGroup_repr (buildgroups d) @ '')''"

definition main :: "os_write \<Rightarrow> filesystem \<Rightarrow> string \<times> unit py_result \<times> filesystem" where
  "main os fs =
     (case BuildRuleFile_parse fs ''turing.xml'' of
        Inl e \<Rightarrow> ([], Inl e, fs)
      | Inr brfile \<Rightarrow>
          (case BuildRuleFile_write os brfile ''turing.xml'' fs of
             (r, fs') \<Rightarrow> (BuildRuleFile_repr brfile @ [CHR 0x0A], sbind r (\<lambda>_. Inr ()), fs')))"

text \<open>The tree a document is written to, and when writing it succeeds.\<close>

definition file_element :: "BuildRuleFile \<Rightarrow> node" where
  "file_element d =
     Element ''BUILD_RULE'' [] [Element (str_upper (version d)) [] (map group_element (buildgroups d))]"

definition file_valid :: "BuildRuleFile \<Rightarrow> bool" where
  "file_valid d \<longleftrightarrow> valid_tag (str_upper (version d)) \<and> list_all group_valid (buildgroups d)"

declare etree_parse_def [model_defs] BuildRuleFile_parse_root_def [model_defs]
  BuildRuleFile_parse_def [model_defs] BuildRuleFile_to_element_def [model_defs]
  tree_write_def [model_defs] BuildRuleFile_write_def [model_defs] BuildRuleFile_repr_def [model_defs] main_def [model_defs] file_element_def [model_defs]
  file_valid_def [model_defs]

lemma valid_tag_BUILD_RULE [simp]: "valid_tag ''BUILD_RULE''"
  by (simp add: model_defs)

lemma ascii_name_BUILD_RULE [simp]: "ascii_name ''BUILD_RULE''"
  by (simp add: ascii_name_def ascii_str_def is_ascii_def)

subsection \<open>The shape of both directions\<close>

lemma BuildRuleFile_parse_root_eq:
  "BuildRuleFile_parse_root root =
     (case children root of
        [] \<Rightarrow> Inl IndexError
      | Comment s # _ \<Rightarrow> Inl AttributeError
      | Element t a cs # _ \<Rightarrow>
          sbind (traverse BuildGroup_parse cs) (\<lambda>gs. Inr \<lparr>version = str_lower t, buildgroups = gs\<rparr>))"
  by (auto simp: BuildRuleFile_parse_root_def child_at_def append_loop_traverse
      split: list.split node.split)

lemma BuildRuleFile_to_element_file_element:
  "BuildRuleFile_to_element d =
     (if file_valid d then Inr (True, Some (file_element d)) else Inl ValueError)"
proof -
  have loop: "to_element_loop BuildGroup_to_element (Element t [] []) (buildgroups d) =
      (if list_all group_valid (buildgroups d)
       then Inr (True, Some (Element t [] (map group_element (buildgroups d)))) else Inl ValueError)"
    for t
    by (simp add: to_element_loop_eq BuildGroup_to_element_group_element)
  show ?thesis
    by (simp add: BuildRuleFile_to_element_def new_element_def loop file_valid_def file_element_def)
qed

lemma BuildRuleFile_parse_root_file_element:
  "BuildRuleFile_parse_root (file_element d) =
     Inr (d\<lparr>version := str_lower (str_upper (version d))\<rparr>)"
  by (simp add: BuildRuleFile_parse_root_eq file_element_def traverse_map_inverse
      BuildGroup_parse_group_element)

lemma wf_file_element: "file_valid d \<Longrightarrow> ascii_str (version d) \<Longrightarrow> wf_node (file_element d)"
  using ascii_name_BUILD_RULE
  by (auto simp: file_element_def file_valid_def list_all_iff wf_group_element ascii_name_def
      ascii_str_str_upper)

lemma lxml_file_element: "file_valid d \<Longrightarrow> lxml_tree (file_element d)"
  by (auto simp: file_element_def file_valid_def list_all_iff
      intro: wf_node_lxml_tree wf_group_element)

lemma BuildRuleFile_write_file_element:
  "BuildRuleFile_write os d p fs =
     (if file_valid d
      then (case os of
              Os_ok \<Rightarrow> (Inr True, fs(p \<mapsto> Xml (file_element d)))
            | Os_open_error \<Rightarrow> (Inl OSError, fs)
            | Os_write_error \<Rightarrow> (Inl OSError, fs(p \<mapsto> NotXml)))
      else (Inl ValueError, fs))"
  by (simp add: BuildRuleFile_write_def BuildRuleFile_to_element_file_element tree_write_def
      split: os_write.split)

lemma BuildRuleFile_write_Os_ok:
  "BuildRuleFile_write Os_ok d p fs =
     (if file_valid d then (Inr True, fs(p \<mapsto> Xml (file_element d))) else (Inl ValueError, fs))"
  by (simp add: BuildRuleFile_write_file_element)

lemma BuildRuleFile_write_Inr:
  "BuildRuleFile_write os d p fs = (Inr b, fs') \<longleftrightarrow>
     os = Os_ok \<and> file_valid d \<and> b \<and> fs' = fs(p \<mapsto> Xml (file_element d))"
  by (auto simp: BuildRuleFile_write_file_element split: os_write.splits)

lemma BuildRuleFile_write_store:
  "snd (BuildRuleFile_write os d p fs) = fs \<or> snd (BuildRuleFile_write os d p fs) = fs(p \<mapsto> NotXml) \<or>
   (file_valid d \<and> snd (BuildRuleFile_write os d p fs) = fs(p \<mapsto> Xml (file_element d)))"
  by (simp add: BuildRuleFile_write_file_element split: os_write.split)

lemma BuildRuleFile_write_other_paths:
  "q \<noteq> p \<Longrightarrow> snd (BuildRuleFile_write os d p fs) q = fs q"
  by (simp add: BuildRuleFile_write_file_element split: os_write.split)

lemma file_valid_parse_root:
  assumes "lxml_tree root" and "BuildRuleFile_parse_root root = Inr d"
  shows "file_valid d"
proof -
  from assms(2) obtain t a cs rest gs where
    ch: "children root = Element t a cs # rest" and
    gs: "traverse BuildGroup_parse cs = Inr gs" and
    d: "d = \<lparr>version = str_lower t, buildgroups = gs\<rparr>"
    by (auto simp: BuildRuleFile_parse_root_eq sbind_eq_Inr_iff split: list.splits node.splits)
  have "Element t a cs \<in> set (children root)" by (simp add: ch)
  with assms(1) have wf_v: "lxml_tree (Element t a cs)"
    by (rule wf_node_children)
  then have tag: "valid_tag t" by simp
  from gs have gs2: "list_all2 (\<lambda>c g. BuildGroup_parse c = Inr g) cs gs"
    by (simp add: traverse_eq_Inr_iff)
  have "group_valid (gs ! i)" if "i < length gs" for i
  proof -
    from that gs2 have i: "i < length cs" and p: "BuildGroup_parse (cs ! i) = Inr (gs ! i)"
      by (auto simp: list_all2_conv_all_nth)
    from wf_v nth_mem [OF i] have "lxml_tree (cs ! i)"
      by (simp add: list_all_iff)
    then show ?thesis using p by (rule group_valid_parse)
  qed
  with tag show ?thesis
    by (simp add: file_valid_def d list_all_length)
qed

lemma BuildRuleFile_parse_root_ascii_version:
  assumes "wf_node root" and "BuildRuleFile_parse_root root = Inr d"
  shows "ascii_str (version d)"
proof -
  from assms(2) obtain t a cs rest gs where
    ch: "children root = Element t a cs # rest" and d: "d = \<lparr>version = str_lower t, buildgroups = gs\<rparr>"
    by (auto simp: BuildRuleFile_parse_root_eq sbind_eq_Inr_iff split: list.splits node.splits)
  have "Element t a cs \<in> set (children root)" by (simp add: ch)
  with assms(1) have "wf_node (Element t a cs)" by (rule wf_node_children)
  then show ?thesis by (simp add: d ascii_name_def)
qed

lemma file_valid_no_micro_sign: "file_valid d \<Longrightarrow> micro_sign \<notin> set (version d)"
  by (simp add: file_valid_def valid_tag_no_micro_sign)

lemma version_case_roundtrip_iff:
  "d\<lparr>version := str_lower (str_upper (version d))\<rparr> = d \<longleftrightarrow>
     list_all (\<lambda>c. \<not> is_upper c \<and> c \<noteq> sharp_s) (version d)"
  by (cases d) (simp add: str_lower_str_upper_id_iff)

lemma BuildRuleFile_parse_root_version_lower:
  "BuildRuleFile_parse_root root = Inr d \<Longrightarrow> version d = str_lower (version d)"
  by (auto simp: BuildRuleFile_parse_root_eq sbind_eq_Inr_iff split: list.splits node.splits)

subsection \<open>Reading a document\<close>

text \<open>
  C9. Version case transform: reading a document stores the tag of the root's first child
  lowered, and writing a document emits its version raised as the tag of the root's only
  child, under a root literally named \<^verbatim>\<open>BUILD_RULE\<close>.
\<close>

lemma BuildRuleFile_version_case:
  "(BuildRuleFile_parse_root (Element r a (Element t va cs # rest)) = Inr d \<longrightarrow>
      version d = str_lower t) \<and>
   (BuildRuleFile_to_element d' = Inr (True, Some n) \<longrightarrow>
      (\<exists>gs. n = Element ''BUILD_RULE'' [] [Element (str_upper (version d')) [] gs]))"
  by (auto simp: BuildRuleFile_parse_root_eq sbind_eq_Inr_iff BuildRuleFile_to_element_file_element
      file_element_def split: if_splits)

lemma BuildRuleFile_version_case_witness:
  "BuildRuleFile_parse_root (Element ''BUILD_RULE'' [] [Element ''V2'' [] []]) =
      Inr \<lparr>version = ''v2'', buildgroups = []\<rparr> \<and> ''v2'' = str_lower ''V2'' \<and>
   BuildRuleFile_to_element \<lparr>version = ''v2'', buildgroups = []\<rparr> =
      Inr (True, Some (Element ''BUILD_RULE'' [] [Element ''V2'' [] []])) \<and>
   (\<exists>gs. Element ''BUILD_RULE'' [] [Element ''V2'' [] []] =
          Element ''BUILD_RULE'' [] [Element (str_upper ''v2'') [] gs])"
proof -
  let ?d = "\<lparr>version = ''v2'', buildgroups = []\<rparr> :: BuildRuleFile"
  let ?n = "Element ''BUILD_RULE'' [] [Element ''V2'' [] []]"
  have p: "BuildRuleFile_parse_root ?n = Inr ?d" by (simp add: model_defs)
  have t: "BuildRuleFile_to_element ?d = Inr (True, Some ?n)" by (simp add: model_defs)
  note vc = BuildRuleFile_version_case [of "''BUILD_RULE''" "[]" "''V2''" "[]" "[]" "[]" ?d ?d ?n]
  from vc p have v: "''v2'' = str_lower ''V2''" by (simp only: simp_thms BuildRuleFile.select_convs)
  from vc t have e: "\<exists>gs. ?n = Element ''BUILD_RULE'' [] [Element (str_upper ''v2'') [] gs]"
    by (simp only: simp_thms BuildRuleFile.select_convs)
  from p t v e show ?thesis by (intro conjI)
qed

text \<open>
  C10. \<^verbatim>\<open>BuildRuleFile.parse\<close> raises exactly these errors: \<open>IndexError\<close> for a
  root without children (\<^verbatim>\<open>root[0]\<close>), \<open>AttributeError\<close> when the first child is
  a comment (\<^verbatim>\<open>.tag.lower()\<close>), and otherwise the error of the first child of the
  version element that fails to read as a group, every child before it reading.
\<close>

theorem BuildRuleFile_parse_root_Inl_iff:
  "BuildRuleFile_parse_root root = Inl err \<longleftrightarrow>
     (case children root of
        [] \<Rightarrow> err = IndexError
      | Comment s # _ \<Rightarrow> err = AttributeError
      | Element t a cs # _ \<Rightarrow>
          (\<exists>cs1 c cs2. cs = cs1 @ c # cs2 \<and>
             list_all (\<lambda>c. \<exists>g. BuildGroup_parse c = Inr g) cs1 \<and> BuildGroup_parse c = Inl err))"
proof (cases "children root")
  case (Cons v rest)
  show ?thesis
  proof (cases v)
    case (Element t a cs)
    have "BuildRuleFile_parse_root root = Inl err \<longleftrightarrow> traverse BuildGroup_parse cs = Inl err"
      using Cons Element
      by (cases "traverse BuildGroup_parse cs") (simp_all add: BuildRuleFile_parse_root_eq)
    with Cons Element show ?thesis by (simp add: traverse_eq_Inl_iff)
  qed (auto simp: Cons BuildRuleFile_parse_root_eq)
qed (auto simp: BuildRuleFile_parse_root_eq)




text \<open>
  The version stored by \<^verbatim>\<open>BuildRuleFile.parse\<close> never contains an uppercase
  letter.
\<close>

lemma BuildRuleFile_parse_version_no_upper:
  "BuildRuleFile_parse_root root = Inr d \<Longrightarrow> list_all (\<lambda>c. \<not> is_upper c) (version d)"
  by (auto simp: BuildRuleFile_parse_root_eq sbind_eq_Inr_iff str_lower_def list_all_iff
      split: list.splits node.splits)

lemma BuildRuleFile_parse_version_no_upper_witness:
  "BuildRuleFile_parse_root (Element ''BUILD_RULE'' [] [Element ''Ver_A'' [] []]) =
     Inr \<lparr>version = ''ver_a'', buildgroups = []\<rparr> \<and>
   list_all (\<lambda>c. \<not> is_upper c) ''ver_a''"
proof -
  have p: "BuildRuleFile_parse_root (Element ''BUILD_RULE'' [] [Element ''Ver_A'' [] []]) =
     Inr \<lparr>version = ''ver_a'', buildgroups = []\<rparr>" by (simp add: model_defs)
  from BuildRuleFile_parse_version_no_upper [OF p] p show ?thesis by simp
qed

text \<open>
  \<^verbatim>\<open>BuildRuleFile.parse\<close> reads only the root's first child: the root's tag, its
  attributes and any further children are ignored.
\<close>

lemma BuildRuleFile_parse_root_ignores_rest:
  "BuildRuleFile_parse_root (Element r a (v # rest)) = BuildRuleFile_parse_root (Element r' a' [v])"
  by (simp add: BuildRuleFile_parse_root_eq)

subsection \<open>Writing a document\<close>

text \<open>
  C15. \<^verbatim>\<open>BuildRuleFile.to_element\<close> on every branch: a \<^verbatim>\<open>BUILD_RULE\<close> root
  with one child, tagged with the uppercased version, holding one \<^verbatim>\<open><buildgroup>\<close>
  element per group in order; or \<open>ValueError\<close> when the uppercased version is not a
  valid tag or some attribute value is not XML text. It never returns
  \<^verbatim>\<open>(False, None)\<close>.
\<close>

lemma BuildRuleFile_to_element_eq:
  "BuildRuleFile_to_element d =
     (if valid_tag (str_upper (version d)) \<and> list_all group_valid (buildgroups d)
      then Inr (True, Some (Element ''BUILD_RULE'' []
              [Element (str_upper (version d)) [] (map group_element (buildgroups d))]))
      else Inl ValueError)"
  by (simp add: BuildRuleFile_to_element_file_element file_valid_def file_element_def)

text \<open>
  C16. Serialization can fail: a document whose version is empty (so is no XML name) makes
  \<^verbatim>\<open>BuildRuleFile.write\<close> raise \<open>ValueError\<close> from lxml instead of returning
  \<^verbatim>\<open>False\<close>, whatever its groups and whatever the operating system would do; nothing
  is written.
\<close>

lemma BuildRuleFile_write_empty_version:
  "BuildRuleFile_write os \<lparr>version = [], buildgroups = gs\<rparr> p fs = (Inl ValueError, fs)"
  by (simp add: BuildRuleFile_write_file_element file_valid_def str_upper_def valid_tag.simps)


lemma parse_written_file:
  "BuildRuleFile_parse (fs(p \<mapsto> Xml (file_element d))) p =
     Inr (d\<lparr>version := str_lower (str_upper (version d))\<rparr>)"
  by (simp add: BuildRuleFile_parse_def etree_parse_def BuildRuleFile_parse_root_file_element)

lemma parse_partial_file: "BuildRuleFile_parse (fs(p \<mapsto> NotXml)) p = Inl XMLSyntaxError"
  by (simp add: BuildRuleFile_parse_def etree_parse_def)

text \<open>
  C22. No silent corruption: whatever the operating system does during
  \<^verbatim>\<open>BuildRuleFile.write\<close>, the file at the path afterwards reads as it did before, or as
  the document written with its version as the tag written reads back (upper-cased by
  \<^verbatim>\<open>to_element\<close>, lowered by \<^verbatim>\<open>parse\<close>), or raises \<open>XMLSyntaxError\<close> (a
  partial file); it never reads as some other document.
\<close>

theorem BuildRuleFile_write_no_wrong_document:
  "BuildRuleFile_parse (snd (BuildRuleFile_write os d p fs)) p \<in>
     {BuildRuleFile_parse fs p, Inr (d\<lparr>version := str_lower (str_upper (version d))\<rparr>),
      Inl XMLSyntaxError}"
  by (simp add: BuildRuleFile_write_file_element parse_written_file parse_partial_file
      split: os_write.split)

text \<open>
  C26. \<^verbatim>\<open>BuildRuleFile.parse\<close> returns exactly when the root's first child is an
  element each of whose children reads as a group; the document then has that element's tag
  lowered as its version and the groups in document order. The root's tag, its attributes
  and every later child are not looked at.
\<close>

theorem BuildRuleFile_parse_root_Inr_iff:
  "BuildRuleFile_parse_root root = Inr d \<longleftrightarrow>
     (\<exists>t a cs rest gs. children root = Element t a cs # rest \<and>
        list_all2 (\<lambda>c g. BuildGroup_parse c = Inr g) cs gs \<and>
        d = \<lparr>version = str_lower t, buildgroups = gs\<rparr>)"
  by (auto simp: BuildRuleFile_parse_root_eq sbind_eq_Inr_iff traverse_eq_Inr_iff
      split: list.split node.split)

subsection \<open>The printed form\<close>

lemma BuildRuleFile_repr_append_eq_iff [simp]:
  "BuildRuleFile_repr a @ r1 = BuildRuleFile_repr b @ r2 \<longleftrightarrow> a = b \<and> r1 = r2"
  by (cases a, cases b) (auto simp: BuildRuleFile_repr_def
      py_list_repr_append_eq_iff [OF BuildGroup_repr_append_eq_iff BuildGroup_repr_not_bracket])

lemma BuildRuleFile_repr_eq_iff [simp]: "BuildRuleFile_repr a = BuildRuleFile_repr b \<longleftrightarrow> a = b"
  using BuildRuleFile_repr_append_eq_iff [of a "[]" b "[]"] by simp

end
