(* ===== verification/Api_Session.thy ===== *)
theory Api_Session
  imports Build_Rule_File
begin

text \<open>
  Sequences of calls to the module's API, the way a program using \<^verbatim>\<open>build_rule.py\<close>
  interleaves them (\<^verbatim>\<open>main\<close> is one such sequence). The state of such a program is
  the file store and the document it holds in a variable (a \<open>session\<close>). A call is
  \<^verbatim>\<open>BuildRuleFile.parse(path)\<close>, \<^verbatim>\<open>doc.write(path)\<close>, or a field replacement
  (\<^verbatim>\<open>doc._replace(version=...)\<close>, \<^verbatim>\<open>doc._replace(buildgroups=...)\<close>, the only way
  to change a NamedTuple). A write carries what the operating system does with it
  (\<open>os_write\<close>), and \<open>Try c\<close> is a call whose exception the program catches
  (\<^verbatim>\<open>try: ... except Exception: pass\<close>).
  \<^item> \<open>api_exec\<close> runs one call and gives its outcome and the state after it: a parse
    that raises changes nothing, a write that raises may have left a partial file;
    \<open>api_run\<close> runs a list of calls and stops at the first exception not caught.
  \<^item> \<open>api_step\<close> is the same as a relation: one rule per kind of call, over the states
    a call can leave, whether it returned or raised an exception that was caught.
  \<^item> The lemmas: the relation is exactly the set of runs that return; every file of a
    reachable store holds what it held, a partial file, or a tree the module wrote; writing
    then reading gives back the document with its version upper-cased and lowered; caught
    writes to different paths commute; \<^verbatim>\<open>main\<close> is the run
    \<open>[Parse turing.xml, Write turing.xml]\<close>.
\<close>

datatype api_op =
    Parse string
  | Write string os_write
  | Replace_version string
  | Replace_buildgroups "BuildGroup list"
  | Try api_op

record session =
  files :: filesystem
  doc :: BuildRuleFile

fun api_exec :: "session \<Rightarrow> api_op \<Rightarrow> unit py_result \<times> session" where
  "api_exec s (Parse p) =
     (case BuildRuleFile_parse (files s) p of
        Inl e \<Rightarrow> (Inl e, s)
      | Inr d \<Rightarrow> (Inr (), s\<lparr>doc := d\<rparr>))"
| "api_exec s (Write p os) =
     (case BuildRuleFile_write os (doc s) p (files s) of
        (r, fs) \<Rightarrow> (sbind r (\<lambda>_. Inr ()), s\<lparr>files := fs\<rparr>))"
| "api_exec s (Replace_version v) = (Inr (), s\<lparr>doc := (doc s)\<lparr>version := v\<rparr>\<rparr>)"
| "api_exec s (Replace_buildgroups gs) = (Inr (), s\<lparr>doc := (doc s)\<lparr>buildgroups := gs\<rparr>\<rparr>)"
| "api_exec s (Try c) = (Inr (), snd (api_exec s c))"

fun api_run :: "session \<Rightarrow> api_op list \<Rightarrow> unit py_result \<times> session" where
  "api_run s [] = (Inr (), s)"
| "api_run s (c # cs) =
     (case api_exec s c of
        (Inl e, s') \<Rightarrow> (Inl e, s')
      | (Inr _, s') \<Rightarrow> api_run s' cs)"

inductive api_step :: "session \<Rightarrow> session \<Rightarrow> bool" where
  step_parse: "BuildRuleFile_parse (files s) p = Inr d \<Longrightarrow> api_step s (s\<lparr>doc := d\<rparr>)"
| step_write: "BuildRuleFile_write os (doc s) p (files s) = (r, fs) \<Longrightarrow> api_step s (s\<lparr>files := fs\<rparr>)"
| step_replace_version: "api_step s (s\<lparr>doc := (doc s)\<lparr>version := v\<rparr>\<rparr>)"
| step_replace_buildgroups: "api_step s (s\<lparr>doc := (doc s)\<lparr>buildgroups := gs\<rparr>\<rparr>)"

inductive_cases api_step_elim: "api_step s s'"

definition wf_file :: "contents option \<Rightarrow> bool" where
  "wf_file c = (case c of Some (Xml n) \<Rightarrow> wf_node n | _ \<Rightarrow> True)"

declare wf_file_def [model_defs]

subsection \<open>The relation and the executor agree\<close>

lemma api_exec_step: "api_step\<^sup>=\<^sup>= s (snd (api_exec s c))"
proof (induction c)
  case (Parse p)
  then show ?case by (auto intro: step_parse split: sum.split)
next
  case (Write p os)
  then show ?case by (auto intro: step_write split: prod.split)
qed (auto intro: api_step.intros)

lemma api_step_exec: "api_step s s' \<Longrightarrow> \<exists>c. api_exec s c = (Inr (), s')"
proof (induction rule: api_step.induct)
  case (step_parse s p d)
  then have "api_exec s (Parse p) = (Inr (), s\<lparr>doc := d\<rparr>)" by simp
  then show ?case by blast
next
  case (step_write os s p r fs)
  then have "api_exec s (Try (Write p os)) = (Inr (), s\<lparr>files := fs\<rparr>)" by simp
  then show ?case by blast
next
  case (step_replace_version s v)
  have "api_exec s (Replace_version v) = (Inr (), s\<lparr>doc := (doc s)\<lparr>version := v\<rparr>\<rparr>)" by simp
  then show ?case by blast
next
  case (step_replace_buildgroups s gs)
  have "api_exec s (Replace_buildgroups gs) = (Inr (), s\<lparr>doc := (doc s)\<lparr>buildgroups := gs\<rparr>\<rparr>)"
    by simp
  then show ?case by blast
qed

lemma api_run_rtranclp: "api_run s cs = (r, s') \<Longrightarrow> api_step\<^sup>*\<^sup>* s s'"
proof (induction cs arbitrary: s)
  case Nil
  then show ?case by simp
next
  case (Cons c cs)
  obtain r1 s1 where e: "api_exec s c = (r1, s1)" by fastforce
  have "api_step\<^sup>*\<^sup>* s s1" using api_exec_step [of s c] e by auto
  moreover have "api_step\<^sup>*\<^sup>* s1 s'"
  proof (cases r1)
    case (Inl e')
    with Cons.prems e show ?thesis by simp
  next
    case (Inr u)
    with Cons.prems e have "api_run s1 cs = (r, s')" by simp
    then show ?thesis by (rule Cons.IH)
  qed
  ultimately show ?case by (rule rtranclp_trans)
qed

lemma rtranclp_api_run: "api_step\<^sup>*\<^sup>* s s' \<Longrightarrow> \<exists>cs. api_run s cs = (Inr (), s')"
proof (induction rule: converse_rtranclp_induct)
  case base
  have "api_run s' [] = (Inr (), s')" by simp
  then show ?case by blast
next
  case (step s s1)
  from step.hyps(1) obtain c where "api_exec s c = (Inr (), s1)" by (blast dest: api_step_exec)
  moreover from step.IH obtain cs where "api_run s1 cs = (Inr (), s')" by blast
  ultimately have "api_run s (c # cs) = (Inr (), s')" by simp
  then show ?case by blast
qed

subsection \<open>What a step does to the store\<close>

lemma api_step_files:
  assumes "api_step s s'"
  shows "files s' = files s \<or> (\<exists>p. files s' = (files s)(p \<mapsto> NotXml)) \<or>
         (\<exists>p d. file_valid d \<and> files s' = (files s)(p \<mapsto> Xml (file_element d)))"
  using assms
proof cases
  case (step_write os p r fs)
  then have fs: "files s' = snd (BuildRuleFile_write os (doc s) p (files s))" by simp
  from BuildRuleFile_write_store [of os "doc s" p "files s"] show ?thesis
    unfolding fs [symmetric] by blast
qed simp_all

subsection \<open>Properties of call sequences\<close>

text \<open>
  The step relation describes exactly what programs using the module can reach: a
  state is reachable by steps from another exactly when some list of calls (a call whose
  exception the program catches is a \<open>Try\<close>), run from the first, returns in the second.
\<close>

lemma api_steps_iff_run: "api_step\<^sup>*\<^sup>* s s' \<longleftrightarrow> (\<exists>cs. api_run s cs = (Inr (), s'))"
  by (blast intro: api_run_rtranclp dest: rtranclp_api_run)

text \<open>
  C24. What the module can do to a file: along any sequence of calls, each file of the store
  either holds what it held at the start, or a partial file left by a write that failed
  midway, or the tree of a document the module wrote. No other contents ever appear.
\<close>

theorem api_reachable_files:
  assumes "api_step\<^sup>*\<^sup>* s s'"
  shows "files s' p = files s p \<or> files s' p = Some NotXml \<or>
         (\<exists>d. file_valid d \<and> files s' p = Some (Xml (file_element d)))"
  using assms
proof (induction rule: rtranclp_induct)
  case (step s1 s2)
  from api_step_files [OF step.hyps(2)] show ?case
  proof (elim disjE exE conjE)
    assume "files s2 = files s1"
    with step.IH show ?thesis by simp
  next
    fix q assume "files s2 = (files s1)(q \<mapsto> NotXml)"
    with step.IH show ?thesis by (cases "q = p") simp_all
  next
    fix q d assume "file_valid d" and "files s2 = (files s1)(q \<mapsto> Xml (file_element d))"
    with step.IH show ?thesis by (cases "q = p") auto
  qed
qed simp

theorem api_reachable_files_witness:
  "api_step\<^sup>*\<^sup>* \<lparr>files = Map.empty(''in.xml'' \<mapsto> Xml (Element ''R'' [] [Element ''V1'' [] []])),
                   doc = \<lparr>version = ''x'', buildgroups = []\<rparr>\<rparr>
     \<lparr>files = Map.empty(''in.xml'' \<mapsto> Xml (Element ''R'' [] [Element ''V1'' [] []]),
                       ''out.xml'' \<mapsto> Xml (Element ''BUILD_RULE'' [] [Element ''V1'' [] []])),
      doc = \<lparr>version = ''v1'', buildgroups = []\<rparr>\<rparr> \<and>
   file_valid \<lparr>version = ''v1'', buildgroups = []\<rparr> \<and>
   (Map.empty(''in.xml'' \<mapsto> Xml (Element ''R'' [] [Element ''V1'' [] []]),
                       ''out.xml'' \<mapsto> Xml (Element ''BUILD_RULE'' [] [Element ''V1'' [] []]))) ''out.xml'' = Some (Xml (file_element \<lparr>version = ''v1'', buildgroups = []\<rparr>))"
proof -
  let ?s0 = "\<lparr>files = Map.empty(''in.xml'' \<mapsto> Xml (Element ''R'' [] [Element ''V1'' [] []])),
              doc = \<lparr>version = ''x'', buildgroups = []\<rparr>\<rparr>"
  let ?s1 = "\<lparr>files = Map.empty(''in.xml'' \<mapsto> Xml (Element ''R'' [] [Element ''V1'' [] []]),
                       ''out.xml'' \<mapsto> Xml (Element ''BUILD_RULE'' [] [Element ''V1'' [] []])),
              doc = \<lparr>version = ''v1'', buildgroups = []\<rparr>\<rparr>"
  have "api_run ?s0 [Parse ''in.xml'', Write ''out.xml'' Os_ok] = (Inr (), ?s1)"
    by (simp add: model_defs)
  then have steps: "api_step\<^sup>*\<^sup>* ?s0 ?s1" by (rule api_run_rtranclp)
  have v: "file_valid \<lparr>version = ''v1'', buildgroups = []\<rparr>" by (simp add: model_defs)
  from api_reachable_files [OF steps, of "''out.xml''"] steps v show ?thesis
    by (simp add: model_defs)
qed

text \<open>
  Writing the held document and reading the same path back, both returning, holds the
  document with its version upper-cased and lowered, and the file holds the document's tree.
\<close>

lemma api_write_then_parse:
  assumes "api_run s [Write p os, Parse p] = (Inr (), s')"
  shows "doc s' = (doc s)\<lparr>version := str_lower (str_upper (version (doc s)))\<rparr> \<and>
         files s' p = Some (Xml (file_element (doc s)))"
proof -
  obtain r fs where w: "BuildRuleFile_write os (doc s) p (files s) = (r, fs)" by fastforce
  show ?thesis
  proof (cases r)
    case (Inl e)
    with assms w show ?thesis by simp
  next
    case (Inr b)
    with w have fs: "fs = (files s)(p \<mapsto> Xml (file_element (doc s)))"
      by (simp add: BuildRuleFile_write_Inr)
    from assms w Inr have "api_run (s\<lparr>files := fs\<rparr>) [Parse p] = (Inr (), s')" by simp
    then show ?thesis by (auto simp: fs parse_written_file)
  qed
qed

lemma api_write_then_parse_example:
  "api_run \<lparr>files = Map.empty, doc = \<lparr>version = ''Beta'', buildgroups = []\<rparr>\<rparr>
     [Write ''o.xml'' Os_ok, Parse ''o.xml''] =
     (Inr (), \<lparr>files = Map.empty(''o.xml'' \<mapsto> Xml (Element ''BUILD_RULE'' [] [Element ''BETA'' [] []])),
          doc = \<lparr>version = ''beta'', buildgroups = []\<rparr>\<rparr>) \<and>
   \<lparr>version = ''beta'', buildgroups = []\<rparr> = \<lparr>version = str_lower (str_upper ''Beta''), buildgroups = []\<rparr>"
proof -
  have r: "api_run \<lparr>files = Map.empty, doc = \<lparr>version = ''Beta'', buildgroups = []\<rparr>\<rparr>
     [Write ''o.xml'' Os_ok, Parse ''o.xml''] =
     (Inr (), \<lparr>files = Map.empty(''o.xml'' \<mapsto> Xml (Element ''BUILD_RULE'' [] [Element ''BETA'' [] []])),
          doc = \<lparr>version = ''beta'', buildgroups = []\<rparr>\<rparr>)"
    by (simp add: model_defs)
  from api_write_then_parse [OF r] r show ?thesis by simp
qed

text \<open>
  C29. Order of writes: a program that writes the held document to two different paths,
  catching what each write raises, ends in the same state in either order, whatever the
  operating system does on each write.
\<close>

theorem api_writes_commute:
  assumes "p \<noteq> q"
  shows "api_run s [Try (Write p o1), Try (Write q o2)] = api_run s [Try (Write q o2), Try (Write p o1)]"
  using assms by (simp add: BuildRuleFile_write_file_element fun_upd_twist split: os_write.split)

theorem api_writes_commute_witness:
  "api_run \<lparr>files = Map.empty, doc = \<lparr>version = ''v'', buildgroups = []\<rparr>\<rparr>
     [Try (Write ''a'' Os_write_error), Try (Write ''b'' Os_ok)] =
   api_run \<lparr>files = Map.empty, doc = \<lparr>version = ''v'', buildgroups = []\<rparr>\<rparr>
     [Try (Write ''b'' Os_ok), Try (Write ''a'' Os_write_error)]"
  using api_writes_commute [of "''a''" "''b''" "\<lparr>files = Map.empty, doc = \<lparr>version = ''v'', buildgroups = []\<rparr>\<rparr>"
      Os_write_error Os_ok]
  by simp

text \<open>
  \<^verbatim>\<open>main\<close> is the call sequence \<^verbatim>\<open>parse('turing.xml')\<close> then
  \<^verbatim>\<open>write('turing.xml')\<close>, whatever document the session held before: it ends with the
  outcome and the file store that run ends with.
\<close>

lemma main_is_api_run:
  "snd (main os fs) =
     map_prod id files (api_run \<lparr>files = fs, doc = d\<rparr> [Parse ''turing.xml'', Write ''turing.xml'' os])"
proof (cases "BuildRuleFile_parse fs ''turing.xml''")
  case (Inl e)
  then show ?thesis by (simp add: main_def)
next
  case (Inr d')
  obtain r fs' where w: "BuildRuleFile_write os d' ''turing.xml'' fs = (r, fs')" by fastforce
  show ?thesis by (cases r) (simp_all add: main_def Inr w)
qed

end
