(* ===== verification/Format_Spec.thy ===== *)
theory Format_Spec
  imports Build_Rule_File
begin

text \<open>
  The wire format of the build-rule file as a declarative grammar, and the code's two
  directions against it. The format is the one the module's documentation draws:
  \<^verbatim>\<open><BUILD_RULE><TAG><buildgroup name weight producttype><rule productname
  added_contition addname target/>...</buildgroup>...</TAG></BUILD_RULE>\<close>. It is written
  as three \<^theory_text>\<open>inductive\<close> predicates, one per level, each relating a tree to the
  value it denotes: \<open>rule_form\<close>, \<open>group_form\<close> and \<open>doc_form\<close>. A tree of the format
  has fixed tags for the root, the groups and the rules, exactly one child under the root,
  no comments, every required attribute present (other attributes are allowed: there is no
  schema) and rules without children; it denotes the document whose version is its version
  tag lowered.
  \<^item> Refinement of the reading direction: every tree of the format is read by
    \<open>BuildRuleFile_parse_root\<close> as the document it denotes (so the grammar is also
    unambiguous); the code reads more trees than the format has, which the component
    theories record.
  \<^item> Refinement of the writing direction: every tree \<open>BuildRuleFile_to_element\<close> builds
    is a tree of the format, denoting the document written with its version upper-cased
    and lowered.
  \<^item> Bounds: the size (\<open>node_count\<close>) and depth (\<open>depth\<close>) of the tree written for
    a document, and the number of groups and rules a tree can be read as.
\<close>

subsection \<open>The grammar\<close>

inductive rule_form :: "node \<Rightarrow> BuildRule \<Rightarrow> bool" where
  rule_formI:
    "map_of a ''productname'' = Some p \<Longrightarrow> map_of a ''added_contition'' = Some c \<Longrightarrow>
     map_of a ''addname'' = Some n \<Longrightarrow> map_of a ''target'' = Some t \<Longrightarrow>
     rule_form (Element ''rule'' a [])
       \<lparr>productname = p, added_contition = c, addname = n, target = t\<rparr>"

inductive group_form :: "node \<Rightarrow> BuildGroup \<Rightarrow> bool" where
  group_formI:
    "map_of a ''name'' = Some n \<Longrightarrow> map_of a ''weight'' = Some w \<Longrightarrow>
     map_of a ''producttype'' = Some pt \<Longrightarrow> list_all2 rule_form cs rs \<Longrightarrow>
     group_form (Element ''buildgroup'' a cs) \<lparr>name = n, weight = w, producttype = pt, rules = rs\<rparr>"

inductive doc_form :: "node \<Rightarrow> BuildRuleFile \<Rightarrow> bool" where
  doc_formI:
    "list_all2 group_form cs gs \<Longrightarrow>
     doc_form (Element ''BUILD_RULE'' ra [Element t va cs]) \<lparr>version = str_lower t, buildgroups = gs\<rparr>"

inductive_simps rule_form_Element: "rule_form (Element tg a cs) r"
inductive_simps group_form_Element: "group_form (Element tg a cs) g"
inductive_simps doc_form_Element: "doc_form (Element tg a cs) d"
inductive_cases rule_formE: "rule_form e r"
inductive_cases group_formE: "group_form e g"
inductive_cases doc_formE: "doc_form e d"

subsection \<open>Tree measures\<close>

fun node_count :: "node \<Rightarrow> nat" where
  "node_count (Element t a cs) = Suc (sum_list (map node_count cs))"
| "node_count (Comment s) = 1"

fun depth :: "node \<Rightarrow> nat" where
  "depth (Element t a cs) = Suc (foldr max (map depth cs) 0)"
| "depth (Comment s) = 1"

definition rule_total :: "BuildRuleFile \<Rightarrow> nat" where
  "rule_total d = sum_list (map (\<lambda>g. length (rules g)) (buildgroups d))"

declare rule_total_def [model_defs]

lemma node_count_pos [simp]: "0 < node_count n"
  by (cases n) simp_all

lemma length_le_sum_node_count: "length cs \<le> sum_list (map node_count cs)"
proof (induction cs)
  case (Cons c cs)
  have "0 < node_count c" by simp
  with Cons.IH show ?case by (simp del: node_count_pos)
qed simp

lemma foldr_max_le_iff: "foldr max xs (0::nat) \<le> k \<longleftrightarrow> (\<forall>x \<in> set xs. x \<le> k)"
  by (induction xs) auto

subsection \<open>Each level of the code against the grammar\<close>

lemma rule_form_parse: "rule_form e r \<Longrightarrow> BuildRule_parse e = Inr r"
  by (auto elim!: rule_formE simp: BuildRule_parse_def attrib_getitem_def)

lemma traverse_list_all2_Inr:
  "list_all2 P xs ys \<Longrightarrow> (\<And>x y. P x y \<Longrightarrow> f x = Inr y) \<Longrightarrow> traverse f xs = Inr ys"
  unfolding traverse_eq_Inr_iff by (erule list_all2_mono) blast

lemma group_form_parse: "group_form e g \<Longrightarrow> BuildGroup_parse e = Inr g"
  by (auto elim!: group_formE simp: BuildGroup_parse_def attrib_getitem_def append_loop_traverse
      traverse_list_all2_Inr [where f = BuildRule_parse] rule_form_parse)

lemma rule_form_rule_element: "rule_form (rule_element r) r"
  by (simp add: rule_form_Element rule_element_def rule_attrs_def rule_keys_def rule_values_def)

lemma group_form_group_element: "group_form (group_element g) g"
  by (cases g) (simp add: group_form_Element group_element_def group_attrs_def group_keys_def
      group_values_def list_all2_map1 list_all2_refl rule_form_rule_element)

lemma sum_list_list_all2_le:
  "list_all2 (\<lambda>x y. m y \<le> node_count x) xs ys \<Longrightarrow>
   sum_list (map m ys) \<le> sum_list (map node_count xs)"
  by (induction rule: list_all2_induct) simp_all

lemma BuildGroup_parse_size:
  assumes "BuildGroup_parse e = Inr g"
  shows "Suc (length (rules g)) \<le> node_count e"
proof -
  from assms have "traverse BuildRule_parse (children e) = Inr (rules g)"
    by (auto simp: BuildGroup_parse_header sbind_eq_Inr_iff split: option.splits)
  then have "length (rules g) = length (children e)" by (rule traverse_length)
  moreover have "Suc (length (children e)) \<le> node_count e"
    using length_le_sum_node_count by (cases e) simp_all
  ultimately show ?thesis by simp
qed

lemma node_count_group_element: "node_count (group_element g) = Suc (length (rules g))"
  by (simp add: group_element_def rule_element_def comp_def sum_list_triv)

lemma depth_group_element: "depth (group_element g) \<le> 2"
  by (simp add: group_element_def rule_element_def foldr_max_le_iff)

lemma sum_list_Suc_length:
  "sum_list (map (\<lambda>g. Suc (f g)) gs) = length gs + sum_list (map f gs)"
  by (induction gs) simp_all

subsection \<open>The code refines the format\<close>

text \<open>
  C30. Reading refines the format: every tree of the documented format is read by
  \<^verbatim>\<open>BuildRuleFile.parse\<close> (lines 80--88) as exactly the document the format says it
  denotes: the version tag lowered, every group and rule with its attribute values, in
  document order.
\<close>

theorem BuildRuleFile_parse_root_format:
  assumes "doc_form root d"
  shows "BuildRuleFile_parse_root root = Inr d"
  using assms
proof cases
  case (doc_formI cs gs ra t va)
  then have "traverse BuildGroup_parse cs = Inr gs"
    by (blast intro: traverse_list_all2_Inr group_form_parse)
  with doc_formI show ?thesis by (simp add: BuildRuleFile_parse_root_eq)
qed

theorem BuildRuleFile_parse_root_format_witness:
  "doc_form (Element ''BUILD_RULE'' [] [Element ''V1'' [] [Element ''buildgroup'' [(''name'', ''g1''), (''weight'', ''10''), (''producttype'', ''app'')]
       [Element ''rule'' [(''productname'', ''p1''), (''added_contition'', ''c1''), (''addname'', ''a1''), (''target'', ''t1'')] []]]])
     \<lparr>version = ''v1'', buildgroups = [\<lparr>name = ''g1'', weight = ''10'', producttype = ''app'',
       rules = [\<lparr>productname = ''p1'', added_contition = ''c1'', addname = ''a1'', target = ''t1''\<rparr>]\<rparr>]\<rparr> \<and>
   BuildRuleFile_parse_root (Element ''BUILD_RULE'' [] [Element ''V1'' [] [Element ''buildgroup'' [(''name'', ''g1''), (''weight'', ''10''), (''producttype'', ''app'')]
       [Element ''rule'' [(''productname'', ''p1''), (''added_contition'', ''c1''), (''addname'', ''a1''), (''target'', ''t1'')] []]]]) =
     Inr \<lparr>version = ''v1'', buildgroups = [\<lparr>name = ''g1'', weight = ''10'', producttype = ''app'',
       rules = [\<lparr>productname = ''p1'', added_contition = ''c1'', addname = ''a1'', target = ''t1''\<rparr>]\<rparr>]\<rparr>"
proof -
  have f: "doc_form (Element ''BUILD_RULE'' [] [Element ''V1'' [] [Element ''buildgroup'' [(''name'', ''g1''), (''weight'', ''10''), (''producttype'', ''app'')]
       [Element ''rule'' [(''productname'', ''p1''), (''added_contition'', ''c1''), (''addname'', ''a1''), (''target'', ''t1'')] []]]])
     \<lparr>version = ''v1'', buildgroups = [\<lparr>name = ''g1'', weight = ''10'', producttype = ''app'',
       rules = [\<lparr>productname = ''p1'', added_contition = ''c1'', addname = ''a1'', target = ''t1''\<rparr>]\<rparr>]\<rparr>"
    by (simp add: doc_form_Element group_form_Element rule_form_Element model_defs)
  from BuildRuleFile_parse_root_format [OF f] f show ?thesis by simp
qed

text \<open>
  C31. Writing refines the format: every tree \<^verbatim>\<open>BuildRuleFile.to_element\<close> builds is a
  tree of the documented format, and it denotes the document that was written, with its
  version upper-cased (the tag written) and lowered (how the format reads a tag).
\<close>

theorem BuildRuleFile_to_element_format:
  assumes "BuildRuleFile_to_element d = Inr (True, Some n)"
  shows "doc_form n (d\<lparr>version := str_lower (str_upper (version d))\<rparr>)"
proof -
  from assms have n: "n = file_element d"
    by (simp add: BuildRuleFile_to_element_file_element split: if_splits)
  have "list_all2 group_form (map group_element (buildgroups d)) (buildgroups d)"
    by (simp add: list_all2_map1 list_all2_refl group_form_group_element)
  then show ?thesis
    by (cases d) (simp add: n file_element_def doc_form_Element)
qed

theorem BuildRuleFile_to_element_format_witness:
  "BuildRuleFile_to_element (\<lparr>version = ''v1'', buildgroups = [\<lparr>name = ''g1'', weight = ''10'', producttype = ''app'',
       rules = [\<lparr>productname = ''p1'', added_contition = ''c1'', addname = ''a1'', target = ''t1''\<rparr>]\<rparr>]\<rparr>\<lparr>version := ''V1''\<rparr>) =
     Inr (True, Some (Element ''BUILD_RULE'' [] [Element ''V1'' [] [Element ''buildgroup'' [(''name'', ''g1''), (''weight'', ''10''), (''producttype'', ''app'')]
       [Element ''rule'' [(''productname'', ''p1''), (''added_contition'', ''c1''), (''addname'', ''a1''), (''target'', ''t1'')] []]]])) \<and>
   doc_form (Element ''BUILD_RULE'' [] [Element ''V1'' [] [Element ''buildgroup'' [(''name'', ''g1''), (''weight'', ''10''), (''producttype'', ''app'')]
       [Element ''rule'' [(''productname'', ''p1''), (''added_contition'', ''c1''), (''addname'', ''a1''), (''target'', ''t1'')] []]]]) \<lparr>version = ''v1'', buildgroups = [\<lparr>name = ''g1'', weight = ''10'', producttype = ''app'',
       rules = [\<lparr>productname = ''p1'', added_contition = ''c1'', addname = ''a1'', target = ''t1''\<rparr>]\<rparr>]\<rparr>"
proof -
  have w: "BuildRuleFile_to_element (\<lparr>version = ''v1'', buildgroups = [\<lparr>name = ''g1'', weight = ''10'', producttype = ''app'',
       rules = [\<lparr>productname = ''p1'', added_contition = ''c1'', addname = ''a1'', target = ''t1''\<rparr>]\<rparr>]\<rparr>\<lparr>version := ''V1''\<rparr>) =
     Inr (True, Some (Element ''BUILD_RULE'' [] [Element ''V1'' [] [Element ''buildgroup'' [(''name'', ''g1''), (''weight'', ''10''), (''producttype'', ''app'')]
       [Element ''rule'' [(''productname'', ''p1''), (''added_contition'', ''c1''), (''addname'', ''a1''), (''target'', ''t1'')] []]]]))"
    by (simp add: model_defs)
  have l: "str_lower (str_upper ''V1'') = ''v1''" by (simp add: model_defs)
  from BuildRuleFile_to_element_format [OF w] w show ?thesis by (simp add: l del: str_upper_Cons)
qed

subsection \<open>Bounds\<close>

text \<open>
  C32. Size of the written tree: a document with \<open>g\<close> groups and \<open>r\<close> rules in all is
  written as a tree of exactly \<open>2 + g + r\<close> elements (root, version element, one per
  group, one per rule), at most four levels deep.
\<close>

theorem BuildRuleFile_to_element_size:
  assumes "BuildRuleFile_to_element d = Inr (True, Some n)"
  shows "node_count n = 2 + length (buildgroups d) + rule_total d \<and> depth n \<le> 4"
proof -
  from assms have n: "n = file_element d"
    by (simp add: BuildRuleFile_to_element_file_element split: if_splits)
  have "node_count n = 2 + length (buildgroups d) + rule_total d"
    by (simp add: n file_element_def comp_def node_count_group_element sum_list_Suc_length
        rule_total_def)
  moreover have "depth n \<le> 4"
    using depth_group_element by (simp add: n file_element_def foldr_max_le_iff)
  ultimately show ?thesis ..
qed

theorem BuildRuleFile_to_element_size_witness:
  "BuildRuleFile_to_element \<lparr>version = ''v1'', buildgroups = [\<lparr>name = ''g1'', weight = ''10'', producttype = ''app'',
       rules = [\<lparr>productname = ''p1'', added_contition = ''c1'', addname = ''a1'', target = ''t1''\<rparr>]\<rparr>]\<rparr> =
     Inr (True, Some (Element ''BUILD_RULE'' [] [Element ''V1'' [] [Element ''buildgroup'' [(''name'', ''g1''), (''weight'', ''10''), (''producttype'', ''app'')]
       [Element ''rule'' [(''productname'', ''p1''), (''added_contition'', ''c1''), (''addname'', ''a1''), (''target'', ''t1'')] []]]])) \<and>
   node_count (Element ''BUILD_RULE'' [] [Element ''V1'' [] [Element ''buildgroup'' [(''name'', ''g1''), (''weight'', ''10''), (''producttype'', ''app'')]
       [Element ''rule'' [(''productname'', ''p1''), (''added_contition'', ''c1''), (''addname'', ''a1''), (''target'', ''t1'')] []]]]) = 4 \<and>
   depth (Element ''BUILD_RULE'' [] [Element ''V1'' [] [Element ''buildgroup'' [(''name'', ''g1''), (''weight'', ''10''), (''producttype'', ''app'')]
       [Element ''rule'' [(''productname'', ''p1''), (''added_contition'', ''c1''), (''addname'', ''a1''), (''target'', ''t1'')] []]]]) \<le> 4"
proof -
  have w: "BuildRuleFile_to_element \<lparr>version = ''v1'', buildgroups = [\<lparr>name = ''g1'', weight = ''10'', producttype = ''app'',
       rules = [\<lparr>productname = ''p1'', added_contition = ''c1'', addname = ''a1'', target = ''t1''\<rparr>]\<rparr>]\<rparr> =
     Inr (True, Some (Element ''BUILD_RULE'' [] [Element ''V1'' [] [Element ''buildgroup'' [(''name'', ''g1''), (''weight'', ''10''), (''producttype'', ''app'')]
       [Element ''rule'' [(''productname'', ''p1''), (''added_contition'', ''c1''), (''addname'', ''a1''), (''target'', ''t1'')] []]]]))"
    by (simp add: model_defs)
  from BuildRuleFile_to_element_size [OF w] w show ?thesis by (simp add: model_defs)
qed

text \<open>
  C33. Reading never invents structure: a document read from a tree has at most as many
  groups and rules as the tree has nodes (elements and comments) besides the root and the
  version element (each group and each rule is read from an element of its own).
\<close>

theorem BuildRuleFile_parse_root_size:
  assumes "BuildRuleFile_parse_root root = Inr d"
  shows "2 + length (buildgroups d) + rule_total d \<le> node_count root"
proof -
  from assms obtain t a cs rest where
    ch: "children root = Element t a cs # rest" and
    gs: "traverse BuildGroup_parse cs = Inr (buildgroups d)"
    by (auto simp: BuildRuleFile_parse_root_eq sbind_eq_Inr_iff split: list.splits node.splits)
  from gs have "list_all2 (\<lambda>c g. Suc (length (rules g)) \<le> node_count c) cs (buildgroups d)"
    by (auto simp: traverse_eq_Inr_iff elim!: list_all2_mono intro: BuildGroup_parse_size)
  then have "length (buildgroups d) + rule_total d \<le> sum_list (map node_count cs)"
    by (auto dest!: sum_list_list_all2_le simp: sum_list_Suc_length rule_total_def)
  moreover have "Suc (node_count (Element t a cs)) \<le> node_count root"
    using ch by (cases root) simp_all
  ultimately show ?thesis by simp
qed

theorem BuildRuleFile_parse_root_size_witness:
  "BuildRuleFile_parse_root (Element ''ROOT'' [] [Element ''V1'' [] [Element ''buildgroup'' [(''name'', ''g1''), (''weight'', ''10''), (''producttype'', ''app'')]
       [Element ''rule'' [(''productname'', ''p1''), (''added_contition'', ''c1''), (''addname'', ''a1''), (''target'', ''t1'')] [Comment ''x'']]], Comment ''y'']) =
     Inr \<lparr>version = ''v1'', buildgroups = [\<lparr>name = ''g1'', weight = ''10'', producttype = ''app'',
       rules = [\<lparr>productname = ''p1'', added_contition = ''c1'', addname = ''a1'', target = ''t1''\<rparr>]\<rparr>]\<rparr> \<and>
   4 \<le> node_count (Element ''ROOT'' [] [Element ''V1'' [] [Element ''buildgroup'' [(''name'', ''g1''), (''weight'', ''10''), (''producttype'', ''app'')]
       [Element ''rule'' [(''productname'', ''p1''), (''added_contition'', ''c1''), (''addname'', ''a1''), (''target'', ''t1'')] [Comment ''x'']]], Comment ''y''])"
proof -
  have p: "BuildRuleFile_parse_root (Element ''ROOT'' [] [Element ''V1'' [] [Element ''buildgroup'' [(''name'', ''g1''), (''weight'', ''10''), (''producttype'', ''app'')]
       [Element ''rule'' [(''productname'', ''p1''), (''added_contition'', ''c1''), (''addname'', ''a1''), (''target'', ''t1'')] [Comment ''x'']]], Comment ''y'']) =
     Inr \<lparr>version = ''v1'', buildgroups = [\<lparr>name = ''g1'', weight = ''10'', producttype = ''app'',
       rules = [\<lparr>productname = ''p1'', added_contition = ''c1'', addname = ''a1'', target = ''t1''\<rparr>]\<rparr>]\<rparr>"
    by (simp add: model_defs)
  from BuildRuleFile_parse_root_size [OF p] p show ?thesis by (simp add: model_defs)
qed

end
