(* ===== verification/Etree_Heap.thy ===== *)
theory Etree_Heap
  imports Etree
begin

text \<open>
  lxml elements as the objects they are. \<^verbatim>\<open>etree.Element\<close> and
  \<^verbatim>\<open>etree.SubElement\<close> return references to mutable element objects, and
  \<^verbatim>\<open>SubElement(parent, tag)\<close> attaches the new element to its parent at once, so
  later changes made through the returned reference are seen in the parent's tree. The
  value-level model of \<open>Etree\<close> has no such sharing; this theory has it:
  \<^item> a \<open>heap\<close> holds the element objects created so far (an address is a position in
    it, allocation appends); an object (\<open>helem\<close>) has a tag, attributes and children,
    each child either a reference to another object of the heap or a finished tree;
  \<^item> the calls are a datatype \<open>etree_call\<close> and \<open>heap_exec\<close> runs one:
    \<^verbatim>\<open>Element(tag)\<close> allocates, \<^verbatim>\<open>SubElement(parent, tag)\<close> allocates and adds a
    reference to the new object to the parent's children, \<^verbatim>\<open>parent.append(tree)\<close> adds
    a tree; an invalid tag raises \<open>ValueError\<close> before anything is allocated. A Python
    reference always names a live object, so a call on an address outside the heap does not
    arise from code (\<open>heap_reach\<close>); the model raises \<open>TypeError\<close> there;
  \<^item> \<open>materialize n h r\<close> reads the object at \<open>r\<close> as the tree lxml serializes,
    following references with at most \<open>n\<close> steps of fuel (a heap with a cycle would never
    finish). In every heap that calls can build, a reference points to a later object
    (\<open>heap_wf\<close>), so \<open>length h - r\<close> steps are enough and more fuel changes nothing.
\<close>

datatype hchild = Ref nat | Tree node

record helem =
  htag :: string
  hattrs :: "(string \<times> string) list"
  hchildren :: "hchild list"

type_synonym heap = "helem list"

datatype etree_call =
    Element_call string
  | SubElement_call nat string
  | Append_call nat node

definition new_helem :: "string \<Rightarrow> helem" where
  "new_helem t = \<lparr>htag = t, hattrs = [], hchildren = []\<rparr>"

definition add_child :: "hchild \<Rightarrow> helem \<Rightarrow> helem" where
  "add_child c e = e\<lparr>hchildren := hchildren e @ [c]\<rparr>"

fun heap_exec :: "heap \<Rightarrow> etree_call \<Rightarrow> (heap \<times> nat) py_result" where
  "heap_exec h (Element_call t) =
     (if valid_tag t then Inr (h @ [new_helem t], length h) else Inl ValueError)"
| "heap_exec h (SubElement_call p t) =
     (if p \<ge> length h then Inl TypeError
      else if valid_tag t then Inr (h[p := add_child (Ref (length h)) (h ! p)] @ [new_helem t], length h)
      else Inl ValueError)"
| "heap_exec h (Append_call p e) =
     (if p < length h then Inr (h[p := add_child (Tree e) (h ! p)], p) else Inl TypeError)"

fun materialize :: "nat \<Rightarrow> heap \<Rightarrow> nat \<Rightarrow> node option" where
  "materialize 0 h r = None"
| "materialize (Suc n) h r =
     (if r < length h
      then map_option (Element (htag (h ! r)) (hattrs (h ! r)))
             (those (map (\<lambda>c. case c of Ref r' \<Rightarrow> materialize n h r' | Tree t \<Rightarrow> Some t)
                         (hchildren (h ! r))))
      else None)"

definition heap_wf :: "heap \<Rightarrow> bool" where
  "heap_wf h \<longleftrightarrow>
     (\<forall>r < length h. \<forall>c \<in> set (hchildren (h ! r)). \<forall>r'. c = Ref r' \<longrightarrow> r < r' \<and> r' < length h)"

inductive heap_reach :: "heap \<Rightarrow> bool" where
  reach_empty: "heap_reach []"
| reach_call: "heap_reach h \<Longrightarrow> heap_exec h c = Inr (h', r) \<Longrightarrow> heap_reach h'"

declare new_helem_def [model_defs] add_child_def [model_defs] heap_wf_def [model_defs]

subsection \<open>Well-formed heaps\<close>

lemma heap_wf_empty: "heap_wf []"
  by (simp add: heap_wf_def)

lemma heap_wfI:
  "(\<And>r r'. r < length h \<Longrightarrow> Ref r' \<in> set (hchildren (h ! r)) \<Longrightarrow> r < r' \<and> r' < length h) \<Longrightarrow>
   heap_wf h"
  unfolding heap_wf_def by blast

lemma heap_wfD:
  "heap_wf h \<Longrightarrow> r < length h \<Longrightarrow> Ref r' \<in> set (hchildren (h ! r)) \<Longrightarrow> r < r' \<and> r' < length h"
  unfolding heap_wf_def by blast

lemma hchildren_add_child [simp]: "hchildren (add_child c e) = hchildren e @ [c]"
  by (simp add: add_child_def)

lemma hchildren_new_helem [simp]: "hchildren (new_helem t) = []"
  by (simp add: new_helem_def)

lemma heap_exec_wf:
  assumes wf: "heap_wf h" and ex: "heap_exec h c = Inr (h', r)"
  shows "heap_wf h' \<and> r < length h'"
proof (cases c)
  case (Element_call t)
  with ex have h': "h' = h @ [new_helem t]" and r: "r = length h" by (simp_all split: if_splits)
  have "heap_wf h'"
  proof (rule heap_wfI)
    fix r0 r' assume "r0 < length h'" and "Ref r' \<in> set (hchildren (h' ! r0))"
    then have "r0 < length h" and "Ref r' \<in> set (hchildren (h ! r0))"
      by (auto simp: h' nth_append split: if_splits)
    with wf show "r0 < r' \<and> r' < length h'" by (auto simp: h' dest: heap_wfD)
  qed
  with r h' show ?thesis by simp
next
  case (SubElement_call p t)
  with ex have p: "p < length h" and r: "r = length h" by (simp_all split: if_splits)
  with SubElement_call ex have h': "h' = h[p := add_child (Ref (length h)) (h ! p)] @ [new_helem t]"
    by (simp split: if_splits)
  have "heap_wf h'"
  proof (rule heap_wfI)
    fix r0 r' assume r0: "r0 < length h'" and c: "Ref r' \<in> set (hchildren (h' ! r0))"
    then have r0h: "r0 < length h" by (auto simp: h' nth_append split: if_splits)
    show "r0 < r' \<and> r' < length h'"
    proof (cases "r0 = p")
      case True
      with c r0h have "Ref r' \<in> set (hchildren (h ! p)) \<or> r' = length h"
        by (auto simp: h' nth_append)
      with wf p True show ?thesis by (auto simp: h' dest: heap_wfD)
    next
      case False
      with c r0h have "Ref r' \<in> set (hchildren (h ! r0))" by (simp add: h' nth_append)
      with wf r0h show ?thesis by (auto simp: h' dest: heap_wfD)
    qed
  qed
  with r h' show ?thesis by simp
next
  case (Append_call p e)
  with ex have p: "p < length h" and r: "r = p" by (simp_all split: if_splits)
  with Append_call ex have h': "h' = h[p := add_child (Tree e) (h ! p)]" by (simp split: if_splits)
  have "heap_wf h'"
  proof (rule heap_wfI)
    fix r0 r' assume r0: "r0 < length h'" and c: "Ref r' \<in> set (hchildren (h' ! r0))"
    then have r0h: "r0 < length h" by (simp add: h')
    with c have "Ref r' \<in> set (hchildren (h ! r0))"
      by (cases "r0 = p") (auto simp: h')
    with wf r0h show "r0 < r' \<and> r' < length h'" by (auto simp: h' dest: heap_wfD)
  qed
  with r h' p show ?thesis by simp
qed

lemma heap_reach_wf: "heap_reach h \<Longrightarrow> heap_wf h"
  by (induction rule: heap_reach.induct) (auto simp: heap_wf_empty dest: heap_exec_wf)

subsection \<open>Fuel\<close>

lemma those_map_Some: "those (map Some xs) = Some xs"
  by (induction xs) simp_all

lemma those_map_None: "those (map f xs) = None \<longleftrightarrow> (\<exists>x \<in> set xs. f x = None)"
  by (induction xs) (auto split: option.split)

lemma materialize_enough:
  assumes wf: "heap_wf h" and "r < length h" and "length h - r \<le> n"
  shows "materialize n h r \<noteq> None"
  using assms(2,3)
proof (induction n arbitrary: r)
  case 0
  then show ?case by simp
next
  case (Suc n)
  have "(case c of Ref r' \<Rightarrow> materialize n h r' | Tree t \<Rightarrow> Some t) \<noteq> None"
    if c: "c \<in> set (hchildren (h ! r))" for c
  proof (cases c)
    case (Ref r')
    with wf Suc.prems(1) c have "r < r'" and r': "r' < length h"
      by (auto dest: heap_wfD)
    with Suc.prems(2) have "length h - r' \<le> n" by arith
    from Suc.IH [OF r' this] Ref show ?thesis by simp
  qed simp
  with Suc.prems(1) show ?case
    by (simp add: those_map_None)
qed

lemma materialize_SucD:
  "materialize (Suc n) h r = Some t \<Longrightarrow>
   r < length h \<and> those (map (\<lambda>c. case c of Ref r' \<Rightarrow> materialize n h r' | Tree t \<Rightarrow> Some t) (hchildren (h ! r))) \<noteq> None"
  by (cases "r < length h") auto

lemma materialize_mono:
  "materialize n h r = Some t \<Longrightarrow> n \<le> m \<Longrightarrow> materialize m h r = Some t"
proof (induction n arbitrary: m r t)
  case 0
  then show ?case by simp
next
  case (Suc n)
  then obtain m' where m: "m = Suc m'" and nm: "n \<le> m'" by (cases m) auto
  let ?f = "\<lambda>k c. case c of Ref r' \<Rightarrow> materialize k h r' | Tree t \<Rightarrow> Some t"
  from materialize_SucD [OF Suc.prems(1)]
  have some: "those (map (?f n) (hchildren (h ! r))) \<noteq> None" by blast
  have "?f m' c = ?f n c" if c: "c \<in> set (hchildren (h ! r))" for c
  proof (cases c)
    case (Ref r')
    from some c Ref obtain t' where t': "materialize n h r' = Some t'"
      by (auto simp: those_map_None)
    from Suc.IH [OF t' nm] t' Ref show ?thesis by simp
  qed simp
  then have eq: "map (?f m') (hchildren (h ! r)) = map (?f n) (hchildren (h ! r))"
    by (rule map_cong [OF refl])
  have "materialize (Suc m') h r = materialize (Suc n) h r"
    by (simp only: materialize.simps(2) eq)
  with Suc.prems(1) m show ?case by simp
qed

subsection \<open>Every reachable heap can be serialized\<close>

lemma materialize_reachable:
  assumes "heap_reach h" and "r < length h"
  shows "\<exists>t. materialize (length h - r) h r = Some t \<and>
             (\<forall>n \<ge> length h - r. materialize n h r = Some t)"
proof -
  from assms have "materialize (length h - r) h r \<noteq> None"
    by (intro materialize_enough heap_reach_wf) simp_all
  then obtain t where t: "materialize (length h - r) h r = Some t" by blast
  with materialize_mono [OF t] show ?thesis by blast
qed

lemma heap_exec_length:
  "heap_exec h c = Inr (h', r) \<Longrightarrow> length h' = length h + (case c of Append_call _ _ \<Rightarrow> 0 | _ \<Rightarrow> 1)"
  by (cases c) (auto split: if_splits)

end
