(* ===== verification/To_Element_Heap.thy ===== *)
theory To_Element_Heap
  imports Build_Rule_File Etree_Heap
begin

text \<open>
  \<^verbatim>\<open>BuildRuleFile.to_element\<close> (lines 90--99) as the code runs it on lxml's element
  objects: \<^verbatim>\<open>etree.Element('BUILD_RULE')\<close> allocates the root,
  \<^verbatim>\<open>etree.SubElement(root_ele, self.version.upper())\<close> allocates the version element
  and attaches it to the root at once, and the loop appends each group's tree to the version
  element through the reference \<^verbatim>\<open>version_ele\<close>, so the root sees the groups
  without being touched again. \<open>heap_group_loop\<close> is the loop (lines 94--98) and
  \<open>BuildRuleFile_to_element_heap\<close> the method; it returns the heap and the root's
  address, and \<open>heap_tree\<close> reads that root as the tree \<^verbatim>\<open>tree.write\<close>
  serializes. The value-level \<open>BuildRuleFile_to_element\<close> of \<open>Build_Rule_File\<close>
  attaches the version element after the loop instead; the equivalence below shows that the
  two orders build the same tree and raise the same exceptions, whatever objects the heap
  held before the call.
\<close>

fun heap_group_loop :: "heap \<Rightarrow> nat \<Rightarrow> BuildGroup list \<Rightarrow> (bool \<times> heap) py_result" where
  "heap_group_loop h version_ele [] = Inr (True, h)"
| "heap_group_loop h version_ele (buildgroup # gs) =
     sbind (BuildGroup_to_element buildgroup) (\<lambda>(ret, buildgroup_ele).
       if \<not> ret then Inr (False, h)
       else (case buildgroup_ele of
               None \<Rightarrow> Inl TypeError
             | Some e \<Rightarrow>
                 sbind (heap_exec h (Append_call version_ele e)) (\<lambda>(h, _).
                 heap_group_loop h version_ele gs)))"

definition BuildRuleFile_to_element_heap ::
  "BuildRuleFile \<Rightarrow> heap \<Rightarrow> (bool \<times> (heap \<times> nat) option) py_result"
where
  "BuildRuleFile_to_element_heap d h0 =
     sbind (heap_exec h0 (Element_call ''BUILD_RULE'')) (\<lambda>(h, root_ele).
     sbind (heap_exec h (SubElement_call root_ele (str_upper (version d)))) (\<lambda>(h, version_ele).
     sbind (heap_group_loop h version_ele (buildgroups d)) (\<lambda>(ret, h).
       if \<not> ret then Inr (False, None) else Inr (True, Some (h, root_ele)))))"

definition heap_tree ::
  "(bool \<times> (heap \<times> nat) option) py_result \<Rightarrow> (bool \<times> node option) py_result"
where
  "heap_tree res =
     sbind res (\<lambda>(ret, root). Inr (ret, Option.bind root (\<lambda>(h, r). materialize (length h - r) h r)))"

subsection \<open>The loop appends every group's tree\<close>

lemma heap_group_loop_eq:
  "v < length h \<Longrightarrow>
   heap_group_loop h v gs =
     (if list_all group_valid gs
      then Inr (True, h[v := (h ! v)\<lparr>hchildren := hchildren (h ! v) @ map (Tree \<circ> group_element) gs\<rparr>])
      else Inl ValueError)"
proof (induction gs arbitrary: h)
  case Nil
  then show ?case by simp
next
  case (Cons g gs)
  show ?case
  proof (cases "group_valid g")
    case True
    let ?h = "h[v := add_child (Tree (group_element g)) (h ! v)]"
    from Cons.prems have "v < length ?h" by simp
    from Cons.IH [OF this] Cons.prems True show ?thesis
      by (simp add: BuildGroup_to_element_group_element add_child_def comp_def)
  qed (simp add: BuildGroup_to_element_group_element)
qed

subsection \<open>The two orders build the same tree\<close>

lemma materialize_Suc_Trees:
  "r < length h \<Longrightarrow> hchildren (h ! r) = map Tree ts \<Longrightarrow>
   materialize (Suc n) h r = Some (Element (htag (h ! r)) (hattrs (h ! r)) ts)"
  by (simp add: comp_def those_map_Some)

text \<open>
  C28. \<^verbatim>\<open>BuildRuleFile.to_element\<close> run on lxml's element objects, starting from any
  heap, returns what the value-level model returns: the same flag, the same tree read from
  the returned root, and the same exception when it raises.
\<close>

theorem BuildRuleFile_to_element_heap_eq:
  "heap_tree (BuildRuleFile_to_element_heap d h0) = BuildRuleFile_to_element d"
proof (cases "valid_tag (str_upper (version d)) \<and> list_all group_valid (buildgroups d)")
  case True
  let ?r = "length h0" and ?v = "Suc (length h0)"
  let ?h2 = "(h0 @ [new_helem ''BUILD_RULE''])[?r := add_child (Ref ?v) (new_helem ''BUILD_RULE'')]
             @ [new_helem (str_upper (version d))]"
  let ?h3 = "?h2[?v := (?h2 ! ?v)\<lparr>hchildren := hchildren (?h2 ! ?v) @
                 map (Tree \<circ> group_element) (buildgroups d)\<rparr>]"
  have bt: "valid_tag ''BUILD_RULE''" by (simp add: model_defs)
  have loop: "heap_group_loop ?h2 ?v (buildgroups d) = Inr (True, ?h3)"
    using True by (simp add: heap_group_loop_eq)
  have res: "BuildRuleFile_to_element_heap d h0 = Inr (True, Some (?h3, ?r))"
    using True bt loop by (simp add: BuildRuleFile_to_element_heap_def)
  have v: "materialize (Suc 0) ?h3 ?v =
      Some (Element (str_upper (version d)) [] (map group_element (buildgroups d)))"
    by (rule trans [OF materialize_Suc_Trees]) (simp_all add: nth_append new_helem_def)
  have "materialize 2 ?h3 ?r =
      Some (Element ''BUILD_RULE'' [] [Element (str_upper (version d)) [] (map group_element (buildgroups d))])"
    using v by (simp add: numeral_2_eq_2 nth_append new_helem_def add_child_def)
  with res True show ?thesis
    by (simp add: heap_tree_def BuildRuleFile_to_element_file_element file_valid_def file_element_def)
next
  case False
  have bt: "valid_tag ''BUILD_RULE''" by (simp add: model_defs)
  have "BuildRuleFile_to_element_heap d h0 = Inl ValueError"
    using False bt
    by (auto simp: BuildRuleFile_to_element_heap_def heap_group_loop_eq)
  with False show ?thesis
    by (simp add: heap_tree_def BuildRuleFile_to_element_file_element file_valid_def file_element_def)
qed

end
