(* ===== verification/Spec2Isabelle.thy ===== *)
theory Spec2Isabelle
  imports Api_Session Format_Spec To_Element_Heap
begin

text \<open>
  \<^bold>\<open>A verification development for \<^verbatim>\<open>src/build_rule.py\<close>\<close> (zhengft/build_rule).

  \<^bold>\<open>The program.\<close> One Python module reads an XML build-rule file into a three-level
  model and writes it back: a document (\<^verbatim>\<open>BuildRuleFile\<close>: a version and a list of
  groups) owns groups (\<^verbatim>\<open>BuildGroup\<close>: name, weight, product type and a list of
  rules), which own rules (\<^verbatim>\<open>BuildRule\<close>: four strings). Each class has a
  \<^verbatim>\<open>parse\<close> classmethod (element to value, raising on a missing attribute) and a
  \<^verbatim>\<open>to_element\<close> method (value to element, with a success flag threaded upwards);
  the document adds \<^verbatim>\<open>write\<close> (serialize, then store the file) and the module a
  \<^verbatim>\<open>main\<close> that reads \<^verbatim>\<open>turing.xml\<close>, prints the document and writes it back.
  All XML work goes through lxml; the printed form is the \<^verbatim>\<open>__repr__\<close> that
  \<^verbatim>\<open>typing.NamedTuple\<close> generates for each class.

  \<^bold>\<open>The theories\<close>, leaves first:
  \<^item> \<open>Prelude\<close>: Python exceptions as the datatype \<open>py_error\<close>, a raising computation
    as \<open>py_error + 'a\<close> with \<open>sbind\<close> for sequencing, and the list loop the code uses
    (\<open>append_loop\<close>) against its reference meaning \<open>traverse\<close>, with the facts the
    components share: which element a failing loop fails on, when it returns what.
  \<^item> \<open>Py_Str\<close>: \<^verbatim>\<open>str.lower\<close> and \<^verbatim>\<open>str.upper\<close> on Latin-1 (\<open>str_lower\<close>,
    \<open>str_upper\<close>, with \<open>'\<ss>'.upper() = 'SS'\<close>) and their algebra:
    \<open>str_upper (str_lower s) = str_upper s\<close>, and \<open>str_lower (str_upper s) = s\<close>
    exactly for lower-case strings without a sharp s.
  \<^item> \<open>Py_Repr\<close>: Python's \<^verbatim>\<open>repr\<close> of a string (CPython's quoting and
    escaping, \<open>py_str_repr\<close>) and of a list (\<open>py_list_repr\<close>), a reader for string
    literals (\<open>unrepr_str\<close>) with the round trip \<open>unrepr_str (py_str_repr s @ r) =
    Some (s, r)\<close>, and from it that the reprs of lists of such values are self-delimiting.
  \<^item> \<open>Etree\<close>: the lxml interface the code calls, modelled from lxml's documented
    behaviour: trees (\<open>node\<close>), \<^verbatim>\<open>attrib[k]\<close> read and write, \<^verbatim>\<open>Element\<close>,
    \<^verbatim>\<open>append\<close>, \<^verbatim>\<open>root[0]\<close>, the name and text checks that make lxml raise
    \<open>ValueError\<close> (libxml2's XML names on Latin-1), the well-formedness \<open>wf_node\<close> of
    the trees its parser returns with ASCII names, and the to-element loop shared by the
    group and the document (\<open>to_element_loop\<close>).
  \<^item> \<open>Build_Rule\<close>, \<open>Build_Group\<close>, \<open>Build_Rule_File\<close>: one theory per class, a
    \<^theory_text>\<open>record\<close> for the NamedTuple and one definition per method, named after it
    (\<open>BuildRule_parse\<close> is \<^verbatim>\<open>BuildRule.parse\<close>, lines 17--23, and so on), and
    the generated \<^verbatim>\<open>__repr__\<close> of each (\<open>BuildRule_repr\<close>, \<open>BuildGroup_repr\<close>,
    \<open>BuildRuleFile_repr\<close>); the file theory also holds the file store
    (\<open>filesystem\<close>, a map from paths to contents, written by \<open>BuildRuleFile_write\<close>),
    what the operating system does with a write (\<open>os_write\<close>: success, a failure to open,
    a failure midway leaving a partial file) and \<open>main\<close>, whose value is the text it
    printed, its outcome (returned, or the exception raised) and the store after it. Each method's body is translated
    statement by statement: every attribute read is an \<open>attrib_getitem\<close> that may raise
    \<open>KeyError\<close>, every loop is the code's loop, every early \<^verbatim>\<open>return False,
    None\<close> is a branch.
  \<^item> \<open>Api_Session\<close>: programs that use the module, as sequences of calls
    (\<^verbatim>\<open>parse\<close>, \<^verbatim>\<open>write\<close> with its operating-system outcome, field
    replacement, and \<open>Try\<close> for a call whose exception the program catches) over a session (the file
    store and the document held): a deterministic executor \<open>api_exec\<close>/\<open>api_run\<close>
    that stops at the first exception, the same steps as an \<^theory_text>\<open>inductive\<close>
    relation \<open>api_step\<close>, and their agreement; \<^verbatim>\<open>main\<close> is one such run.
  \<^item> \<open>Format_Spec\<close>: the wire format of the documentation as a grammar of three
    \<^theory_text>\<open>inductive\<close> predicates (\<open>rule_form\<close>, \<open>group_form\<close>,
    \<open>doc_form\<close>) relating trees to the values they denote, the refinement lemmas of
    both directions against it, and the size and depth of the trees involved
    (\<open>node_count\<close>, \<open>depth\<close>).
  \<^item> \<open>Etree_Heap\<close>: lxml's elements as mutable objects, for the code that relies on
    their sharing: a heap of element objects (\<open>helem\<close>, children either references
    into the heap or finished trees), one step \<open>heap_exec\<close> per call
    (\<^verbatim>\<open>Element\<close>, \<^verbatim>\<open>SubElement\<close>, \<^verbatim>\<open>append\<close>), the heaps the calls
    can build (\<^theory_text>\<open>inductive\<close> \<open>heap_reach\<close>) and the invariant that every
    reference points to a later object (\<open>heap_wf\<close>), and \<open>materialize\<close>, which reads an
    object as the tree it serializes to, with fuel.
  \<^item> \<open>To_Element_Heap\<close>: \<^verbatim>\<open>BuildRuleFile.to_element\<close> as the code runs it on
    that heap (\<open>BuildRuleFile_to_element_heap\<close>, its loop \<open>heap_group_loop\<close>): the
    version element is attached by \<^verbatim>\<open>SubElement\<close> before the groups are appended to
    it through the reference the code holds.
  \<^item> This theory: the properties that span the components.

  \<^bold>\<open>What the lemmas show.\<close> For each class: the behaviour of \<^verbatim>\<open>parse\<close> on
  every input, given as "returns exactly when ..., with exactly these values" (attribute
  fidelity, order preservation) and "raises exactly this error" (which missing attribute is
  named, which child's error is reported); the behaviour of \<^verbatim>\<open>to_element\<close> on every
  input (the element built, or \<open>ValueError\<close>; the \<^verbatim>\<open>False\<close> branches are never
  taken); and the round trips \<open>parse (to_element x) = x\<close>. Across components:
  reading, writing and reading again gives the document read first, for every tree lxml's
  parser can return with ASCII names (\<open>file_roundtrip\<close>), and for every tree with
  names lxml accepts it does so exactly when the version has no sharp s, whatever the case
  of the tag (\<open>file_roundtrip_latin1\<close>); writing a document then
  reading the file gives it back with its version upper-cased and lowered, which is the
  document itself exactly when the version is lower case without a sharp s or micro sign
  (\<open>write_parse_roundtrip\<close>); \<open>main\<close> changes only \<^verbatim>\<open>turing.xml\<close>, which then
  parses to the document read with its version upper-cased and lowered, is idempotent on
  the file system (a second run changes nothing, and prints the same line unless the
  version holds a sharp s), raises only when reading fails or the operating system's write fails, prints
  before it writes (a failed write leaves the line printed and \<^verbatim>\<open>turing.xml\<close> as it
  was or partial), and prints CPython's repr of the document read,
  a line that determines that document. Against the documented format: every tree of the
  format is read as the document it denotes, and every tree written is a tree of the
  format denoting the document written (version upper-cased and lowered). Over any
  sequence of calls (by rule induction over the step relation): each file holds what it
  held, a partial file or a tree the module wrote, caught writes to different paths
  commute, and a write never leaves a file that reads as a document other than the old one
  or the one written. The lemmas that record where the code and its description part ways
  (tags never checked on reading, comments breaking the parse, serialization raising on an
  empty version, a sharp s in the version not surviving a write) are stated as such.
  On lxml's objects: every call preserves \<open>heap_wf\<close>, so reading any element of a
  reachable heap terminates, and \<^verbatim>\<open>BuildRuleFile.to_element\<close> run on the heap, from
  whatever objects it held, builds the tree and raises the exceptions the value-level
  model does (\<open>BuildRuleFile_to_element_heap_eq\<close>), which justifies the value-level
  model the other theorems use.

  \<^bold>\<open>Bounds and termination.\<close> Every loop of the code runs over a finite list of children
  or values and is structural recursion here, so every definition is total and
  executable, and the program has no loop whose termination is in question (it reads one
  file and writes one). The one place fuel is needed is the heap of \<open>Etree_Heap\<close>:
  following references from an object could run forever on a heap with a cycle, so
  \<open>materialize n h r\<close> takes at most \<open>n\<close> steps. The fuel
  \<open>length h - r\<close> is enough on every reachable heap, because \<^verbatim>\<open>SubElement\<close>
  only ever adds a reference from an existing object to the new one (\<open>heap_wf\<close>), so
  a chain of references from \<open>r\<close> visits increasing addresses below \<open>length h\<close>; more
  fuel gives the same tree. \<^verbatim>\<open>to_element\<close> builds a root and a version element, so
  its result is read with fuel 2. For the same reason as the loops, there is no
  liveness property to state beyond that every call returns or raises, which holds of every
  total definition here: the program is a batch job with no waiting or reactive behaviour. The reader of string literals
  (\<open>unrepr_body\<close>) consumes at least one character per call, which the function package
  proves. The bounds proved are on the trees: a document with \<open>g\<close> groups and
  \<open>r\<close> rules is written as exactly \<open>2 + g + r\<close> elements at most four levels deep, and
  a document read from a tree has at most as many groups and rules as the tree has nodes
  (elements and comments) besides the root and the version element.

  \<^bold>\<open>Not modelled.\<close> The XML text itself (lexing, entities, encodings, pretty-printing
  whitespace): a file holds the tree lxml parses it to. Processing instructions and
  namespaced tags (\<^verbatim>\<open>{uri}local\<close>). Code points above 255: a character is a
  Latin-1 code point, on which \<open>str_lower\<close> is \<^verbatim>\<open>str.lower\<close> and \<open>valid_tag\<close>
  is libxml2's name check exactly, and \<open>str_upper\<close> is \<^verbatim>\<open>str.upper\<close> except on the
  micro sign and \<open>0xFF\<close>, whose upper cases (U+039C, U+0178) lie outside the alphabet and
  which the model leaves as they are. So the model's \<^verbatim>\<open>to_element\<close> raises
  \<open>ValueError\<close> on a version holding a micro sign, where Python writes the tag with U+039C,
  and writes \<open>0xFF\<close> where Python writes U+0178 (both read back as \<open>0xFF\<close>); the
  theorems about what is read back assume the write returned, which excludes the micro sign.
  \<open>wf_node\<close>, the hypothesis of the round trip from a parsed tree, asks for ASCII tag and
  attribute names, on which upper-casing and lowering the version is the identity.
  A crash of the process in the middle of a write (as opposed to an exception): the file
  it leaves is the same partial file, but nothing after it runs. Python's \<^verbatim>\<open>repr\<close> of code points above
  255 (a character here is below 256, where \<open>py_str_repr\<close> is CPython's exactly). The
  traceback printed for an uncaught exception (standard error).

  Element objects are modelled as a heap only in \<^verbatim>\<open>BuildRuleFile.to_element\<close>,
  the one method that changes an element after attaching it; the others build each element
  before it is attached, and the value-level trees of \<open>Etree\<close> model them exactly.
  Removing or moving a child (lxml's \<^verbatim>\<open>append\<close> of an element that already has a
  parent) never happens in the code and is not modelled.

  The fix the documentation proposes for the version tag (keep the original tag beside
  the lowered one) is a design, not code of the repository, and is not modelled; the
  lemmas on what a write reads back state what the code does instead.
\<close>

definition turing :: string where
  "turing = ''turing.xml''"

lemma main_eq:
  "main os fs =
     (case BuildRuleFile_parse fs turing of
        Inl e \<Rightarrow> ([], Inl e, fs)
      | Inr d \<Rightarrow> (BuildRuleFile_repr d @ [CHR 0x0A],
                 if file_valid d
                 then (case os of
                         Os_ok \<Rightarrow> (Inr (), fs(turing \<mapsto> Xml (file_element d)))
                       | Os_open_error \<Rightarrow> (Inl OSError, fs)
                       | Os_write_error \<Rightarrow> (Inl OSError, fs(turing \<mapsto> NotXml)))
                 else (Inl ValueError, fs)))"
  unfolding main_def turing_def
  by (simp add: BuildRuleFile_write_file_element split: sum.split os_write.split)

lemma parse_file_version_lower:
  "BuildRuleFile_parse fs p = Inr d \<Longrightarrow> d\<lparr>version := str_lower (version d)\<rparr> = d"
  by (auto simp: BuildRuleFile_parse_def sbind_eq_Inr_iff
      dest: BuildRuleFile_parse_root_version_lower [symmetric])

subsection \<open>Round trips of the whole document\<close>


definition example_root :: node where
  "example_root =
     Element ''BUILD_RULE'' [] [Element ''V1'' []
       [Element ''buildgroup'' [(''name'', ''g1''), (''weight'', ''10''), (''producttype'', ''app'')]
         [Element ''rule'' [(''productname'', ''p1''), (''added_contition'', ''c1''),
                            (''addname'', ''a1''), (''target'', ''t1'')] []]]]"

definition example_doc :: BuildRuleFile where
  "example_doc =
     \<lparr>version = ''v1'', buildgroups =
       [\<lparr>name = ''g1'', weight = ''10'', producttype = ''app'',
         rules = [\<lparr>productname = ''p1'', added_contition = ''c1'', addname = ''a1'', target = ''t1''\<rparr>]\<rparr>]\<rparr>"




text \<open>
  C35. The document round trip on Latin-1 tags: for every tree lxml's parser can return
  (any tag and attribute names lxml accepts), if \<^verbatim>\<open>BuildRuleFile.parse\<close> reads a
  document from it, then \<^verbatim>\<open>to_element\<close> succeeds and builds a tree lxml accepts, and
  reading that tree gives the same document exactly when the version has no sharp s. The
  version tag need not be upper case (\<^verbatim>\<open><V1beta>\<close> reads as \<^verbatim>\<open>"v1beta"\<close> both
  times); a sharp s is written as \<^verbatim>\<open>SS\<close> and read back as \<^verbatim>\<open>ss\<close>.
\<close>

theorem file_roundtrip_latin1:
  assumes "lxml_tree root" and "BuildRuleFile_parse_root root = Inr d"
  shows "\<exists>root'. BuildRuleFile_to_element d = Inr (True, Some root') \<and> lxml_tree root' \<and>
           (BuildRuleFile_parse_root root' = Inr d \<longleftrightarrow> sharp_s \<notin> set (version d))"
proof -
  from assms have valid: "file_valid d" by (rule file_valid_parse_root)
  from assms(2) have "list_all (\<lambda>c. \<not> is_upper c) (version d)"
    by (rule BuildRuleFile_parse_version_no_upper)
  then have "BuildRuleFile_parse_root (file_element d) = Inr d \<longleftrightarrow> sharp_s \<notin> set (version d)"
    by (auto simp: BuildRuleFile_parse_root_file_element version_case_roundtrip_iff list_all_iff)
  with valid show ?thesis
    by (simp add: BuildRuleFile_to_element_file_element lxml_file_element)
qed

theorem file_roundtrip_latin1_witness:
  "BuildRuleFile_to_element \<lparr>version = [sharp_s], buildgroups = []\<rparr> =
     Inr (True, Some (Element ''BUILD_RULE'' [] [Element ''SS'' [] []])) \<and>
   BuildRuleFile_parse_root (Element ''BUILD_RULE'' [] [Element ''SS'' [] []]) \<noteq>
     Inr \<lparr>version = [sharp_s], buildgroups = []\<rparr>"
proof -
  let ?r = "Element ''BUILD_RULE'' [] [Element [sharp_s] [] []]"
  let ?d = "\<lparr>version = [sharp_s], buildgroups = []\<rparr>"
  have wf: "lxml_tree ?r" by (simp add: model_defs)
  have p: "BuildRuleFile_parse_root ?r = Inr ?d" by (simp add: model_defs)
  have t: "BuildRuleFile_to_element ?d = Inr (True, Some (Element ''BUILD_RULE'' [] [Element ''SS'' [] []]))"
    by (simp add: model_defs)
  from file_roundtrip_latin1 [OF wf p] t show ?thesis by auto
qed

subsection \<open>The entry point\<close>








text \<open>
  C27. Order of the effects of \<^verbatim>\<open>main\<close>: the document is printed before it is written
  back, so when the write raises the line has been printed; every file other than
  \<^verbatim>\<open>turing.xml\<close> is untouched, and \<^verbatim>\<open>turing.xml\<close> either holds what it held or
  a partial file.
\<close>

theorem main_write_failure:
  assumes "BuildRuleFile_parse fs ''turing.xml'' = Inr d" and "main os fs = (out, Inl e, fs')"
  shows "out = BuildRuleFile_repr d @ [CHR 0x0A] \<and> fs' = fs(''turing.xml'' := fs' ''turing.xml'') \<and>
         (fs' ''turing.xml'' = fs ''turing.xml'' \<or> fs' ''turing.xml'' = Some NotXml)"
  using assms
  by (auto simp: main_def BuildRuleFile_write_file_element split: if_splits os_write.splits)

theorem main_write_failure_witness:
  "BuildRuleFile_parse (Map.empty(''turing.xml'' \<mapsto> Xml example_root)) ''turing.xml'' = Inr example_doc \<and>
   main Os_write_error (Map.empty(''turing.xml'' \<mapsto> Xml example_root)) = (BuildRuleFile_repr example_doc @ [CHR 0x0A], Inl OSError, Map.empty(''turing.xml'' \<mapsto> NotXml)) \<and>
   Map.empty(''turing.xml'' \<mapsto> NotXml) =
     (Map.empty(''turing.xml'' \<mapsto> Xml example_root))(''turing.xml'' := Some NotXml)"
proof -
  have p: "BuildRuleFile_parse (Map.empty(''turing.xml'' \<mapsto> Xml example_root)) ''turing.xml'' = Inr example_doc"
    by (simp add: example_root_def example_doc_def model_defs)
  have m: "main Os_write_error (Map.empty(''turing.xml'' \<mapsto> Xml example_root)) = (BuildRuleFile_repr example_doc @ [CHR 0x0A], Inl OSError, Map.empty(''turing.xml'' \<mapsto> NotXml))"
    by (simp add: example_root_def example_doc_def main_def BuildRuleFile_parse_def
        etree_parse_def BuildRuleFile_parse_root_eq BuildRuleFile_write_file_element model_defs
        del: BuildRuleFile_repr_def)
  from main_write_failure [OF p m] p m show ?thesis by simp
qed

text \<open>
  C34. The line \<^verbatim>\<open>main\<close> prints identifies the document it read: two runs that
  print the same non-empty text read the same document from \<^verbatim>\<open>turing.xml\<close> (a run
  whose read raises prints nothing), whatever the operating system does on writing.
\<close>

theorem main_output_determines_document:
  assumes "fst (main os1 fs1) = fst (main os2 fs2)" and "fst (main os1 fs1) \<noteq> []"
  shows "BuildRuleFile_parse fs1 ''turing.xml'' = BuildRuleFile_parse fs2 ''turing.xml''"
proof -
  from assms(2) obtain d1 where p1: "BuildRuleFile_parse fs1 turing = Inr d1"
    by (auto simp: main_eq split: sum.splits)
  with assms obtain d2 where p2: "BuildRuleFile_parse fs2 turing = Inr d2"
    by (auto simp: main_eq split: sum.splits)
  from assms(1) p1 p2 have "d1 = d2" by (simp add: main_eq)
  with p1 p2 show ?thesis by (simp add: turing_def)
qed

theorem main_output_determines_document_witness:
  "fst (main Os_ok (Map.empty(''turing.xml'' \<mapsto> Xml (Element ''ROOT'' [] [Element ''V1'' [] []])))) =
   fst (main Os_open_error (Map.empty(''turing.xml'' \<mapsto> Xml (Element ''BUILD_RULE'' [] [Element ''v1'' [] []])))) \<and>
   fst (main Os_ok (Map.empty(''turing.xml'' \<mapsto> Xml (Element ''ROOT'' [] [Element ''V1'' [] []])))) \<noteq> [] \<and>
   BuildRuleFile_parse (Map.empty(''turing.xml'' \<mapsto> Xml (Element ''ROOT'' [] [Element ''V1'' [] []])))
     ''turing.xml'' =
   BuildRuleFile_parse (Map.empty(''turing.xml'' \<mapsto> Xml (Element ''BUILD_RULE'' [] [Element ''v1'' [] []])))
     ''turing.xml''"
proof -
  let ?fs1 = "Map.empty(''turing.xml'' \<mapsto> Xml (Element ''ROOT'' [] [Element ''V1'' [] []]))"
  let ?fs2 = "Map.empty(''turing.xml'' \<mapsto> Xml (Element ''BUILD_RULE'' [] [Element ''v1'' [] []]))"
  have o: "fst (main Os_ok ?fs1) = fst (main Os_open_error ?fs2)" by (simp add: model_defs)
  have n: "fst (main Os_ok ?fs1) \<noteq> []" by (simp add: model_defs)
  from main_output_determines_document [OF o n] o n show ?thesis by simp
qed

end
